theory Spec2Isabelle
  imports Complex_Main
begin



section \<open>Python strings\<close>

text \<open>
  A Python \<open>str\<close> is a sequence of Unicode code points; it is modelled as a list of
  integers. \<open>asc\<close> turns an ASCII literal into such a list; other characters are
  written as their code points (\<open>0xE9\<close> is e-acute, \<open>0x27\<close> the apostrophe).

  \<open>str.isupper\<close>, \<open>str.lower\<close> and \<open>str.isspace\<close> are modelled on every code point, from
  the tables of the Unicode character database that Python carries (Unicode 14.0). The
  class \<open>\w\<close> of regular expressions is tabulated for Basic Latin and Latin-1 Supplement
  (U+0000 to U+00FF, which holds every letter of the lexicons) and for the mathematical
  bold capitals U+1D400 to U+1D419; every other code point is taken as not a word
  character.
\<close>

type_synonym pystr = "int list"

definition asc :: "string \<Rightarrow> pystr" where
  "asc cs = map of_char cs"

subsection \<open>Character tables\<close>

text \<open>
  A table is a list of entries \<open>(first, last, step)\<close>, ordered by \<open>first\<close>: an entry holds
  the code points \<open>first\<close>, \<open>first + step\<close>, ... up to \<open>last\<close>. The search stops at the
  first entry that begins after the code point. In the table of \<open>str.lower\<close> an entry has
  a fourth component, the distance from the character to its lowercase form.
\<close>

fun in_table :: "int \<Rightarrow> (int \<times> int \<times> int) list \<Rightarrow> bool" where
  "in_table c [] = False"
| "in_table c ((lo, hi, st) # rest) =
     (if c < lo then False
      else if c \<le> hi \<and> (c - lo) mod st = 0 then True
      else in_table c rest)"

fun lookup_delta :: "int \<Rightarrow> (int \<times> int \<times> int \<times> int) list \<Rightarrow> int option" where
  "lookup_delta c [] = None"
| "lookup_delta c ((lo, hi, st, d) # rest) =
     (if c < lo then None
      else if c \<le> hi \<and> (c - lo) mod st = 0 then Some d
      else lookup_delta c rest)"

text \<open>The characters with the property Uppercase, those of which \<open>str.isupper\<close> is true.\<close>

definition upper_table :: "(int \<times> int \<times> int) list" where
  "upper_table =
    [(0x41, 0x5A, 1), (0xC0, 0xD6, 1), (0xD8, 0xDE, 1), (0x100, 0x136, 2), (0x139, 0x147, 2),
     (0x14A, 0x178, 2), (0x179, 0x17D, 2), (0x181, 0x182, 1), (0x184, 0x186, 2),
     (0x187, 0x18B, 2), (0x18A, 0x18A, 1), (0x18E, 0x191, 1), (0x193, 0x194, 1),
     (0x196, 0x198, 1), (0x19C, 0x19D, 1), (0x19F, 0x1A0, 1), (0x1A2, 0x1A6, 2),
     (0x1A7, 0x1A9, 2), (0x1AC, 0x1AE, 2), (0x1AF, 0x1B7, 2), (0x1B2, 0x1B2, 1),
     (0x1B8, 0x1B8, 1), (0x1BC, 0x1BC, 1), (0x1C4, 0x1C4, 1), (0x1C7, 0x1C7, 1),
     (0x1CA, 0x1CA, 1), (0x1CD, 0x1DB, 2), (0x1DE, 0x1EE, 2), (0x1F1, 0x1F1, 1),
     (0x1F4, 0x232, 2), (0x1F7, 0x1F7, 1), (0x23A, 0x23B, 1), (0x23D, 0x23E, 1),
     (0x241, 0x245, 2), (0x244, 0x24E, 2), (0x370, 0x372, 2), (0x376, 0x376, 1),
     (0x37F, 0x37F, 1), (0x386, 0x38E, 2), (0x389, 0x389, 1), (0x38F, 0x3AB, 2),
     (0x392, 0x3A0, 2), (0x3A4, 0x3AA, 2), (0x3CF, 0x3CF, 1), (0x3D2, 0x3D4, 1),
     (0x3D8, 0x3EE, 2), (0x3F4, 0x3F4, 1), (0x3F7, 0x3F9, 2), (0x3FA, 0x3FA, 1),
     (0x3FD, 0x42F, 1), (0x460, 0x480, 2), (0x48A, 0x4C0, 2), (0x4C1, 0x4CD, 2),
     (0x4D0, 0x52E, 2), (0x531, 0x556, 1), (0x10A0, 0x10C5, 1), (0x10C7, 0x10C7, 1),
     (0x10CD, 0x10CD, 1), (0x13A0, 0x13F5, 1), (0x1C90, 0x1CBA, 1), (0x1CBD, 0x1CBF, 1),
     (0x1E00, 0x1E94, 2), (0x1E9E, 0x1EFE, 2), (0x1F08, 0x1F0F, 1), (0x1F18, 0x1F1D, 1),
     (0x1F28, 0x1F2F, 1), (0x1F38, 0x1F3F, 1), (0x1F48, 0x1F4D, 1), (0x1F59, 0x1F5F, 2),
     (0x1F68, 0x1F6F, 1), (0x1FB8, 0x1FBB, 1), (0x1FC8, 0x1FCB, 1), (0x1FD8, 0x1FDB, 1),
     (0x1FE8, 0x1FEC, 1), (0x1FF8, 0x1FFB, 1), (0x2102, 0x2102, 1), (0x2107, 0x2107, 1),
     (0x210B, 0x210D, 1), (0x2110, 0x2112, 1), (0x2115, 0x2115, 1), (0x2119, 0x211D, 1),
     (0x2124, 0x212C, 2), (0x212B, 0x212D, 2), (0x2130, 0x2133, 1), (0x213E, 0x213F, 1),
     (0x2145, 0x2145, 1), (0x2160, 0x216F, 1), (0x2183, 0x2183, 1), (0x24B6, 0x24CF, 1),
     (0x2C00, 0x2C2F, 1), (0x2C60, 0x2C64, 2), (0x2C63, 0x2C63, 1), (0x2C67, 0x2C6F, 2),
     (0x2C6E, 0x2C72, 2), (0x2C75, 0x2C75, 1), (0x2C7E, 0x2CE2, 2), (0x2C7F, 0x2C7F, 1),
     (0x2CEB, 0x2CED, 2), (0x2CF2, 0x2CF2, 1), (0xA640, 0xA66C, 2), (0xA680, 0xA69A, 2),
     (0xA722, 0xA72E, 2), (0xA732, 0xA76E, 2), (0xA779, 0xA77D, 2), (0xA77E, 0xA786, 2),
     (0xA78B, 0xA78D, 2), (0xA790, 0xA792, 2), (0xA796, 0xA7C6, 2), (0xA7AB, 0xA7AD, 2),
     (0xA7B1, 0xA7B3, 2), (0xA7C5, 0xA7C9, 2), (0xA7D0, 0xA7D0, 1), (0xA7D6, 0xA7D8, 2),
     (0xA7F5, 0xA7F5, 1), (0xFF21, 0xFF3A, 1), (0x10400, 0x10427, 1), (0x104B0, 0x104D3, 1),
     (0x10570, 0x10594, 2), (0x10571, 0x10579, 2), (0x1057D, 0x10589, 2), (0x1058D, 0x10591, 2),
     (0x10595, 0x10595, 1), (0x10C80, 0x10CB2, 1), (0x118A0, 0x118BF, 1), (0x16E40, 0x16E5F, 1),
     (0x1D400, 0x1D419, 1), (0x1D434, 0x1D44D, 1), (0x1D468, 0x1D481, 1), (0x1D49C, 0x1D49E, 2),
     (0x1D49F, 0x1D49F, 1), (0x1D4A2, 0x1D4A2, 1), (0x1D4A5, 0x1D4A6, 1), (0x1D4A9, 0x1D4AC, 1),
     (0x1D4AE, 0x1D4B5, 1), (0x1D4D0, 0x1D4E9, 1), (0x1D504, 0x1D505, 1), (0x1D507, 0x1D50A, 1),
     (0x1D50D, 0x1D514, 1), (0x1D516, 0x1D51C, 1), (0x1D538, 0x1D539, 1), (0x1D53B, 0x1D53E, 1),
     (0x1D540, 0x1D544, 1), (0x1D546, 0x1D546, 1), (0x1D54A, 0x1D550, 1), (0x1D56C, 0x1D585, 1),
     (0x1D5A0, 0x1D5B9, 1), (0x1D5D4, 0x1D5ED, 1), (0x1D608, 0x1D621, 1), (0x1D63C, 0x1D655, 1),
     (0x1D670, 0x1D689, 1), (0x1D6A8, 0x1D6C0, 1), (0x1D6E2, 0x1D6FA, 1), (0x1D71C, 0x1D734, 1),
     (0x1D756, 0x1D76E, 1), (0x1D790, 0x1D7A8, 1), (0x1D7CA, 0x1D7CA, 1), (0x1E900, 0x1E921, 1),
     (0x1F130, 0x1F149, 1), (0x1F150, 0x1F169, 1), (0x1F170, 0x1F189, 1)]"

text \<open>The characters with the property Cased.\<close>

definition cased_table :: "(int \<times> int \<times> int) list" where
  "cased_table =
    [(0x41, 0x5A, 1), (0x61, 0x7A, 1), (0xAA, 0xAA, 1), (0xB5, 0xB5, 1), (0xBA, 0xBA, 1),
     (0xC0, 0x1BE, 2), (0xC1, 0xD5, 2), (0xD9, 0xF5, 2), (0xF9, 0x1B9, 2), (0x1BD, 0x1BF, 2),
     (0x1C4, 0x293, 1), (0x295, 0x2B8, 1), (0x2C0, 0x2C1, 1), (0x2E0, 0x2E4, 1),
     (0x345, 0x345, 1), (0x370, 0x373, 1), (0x376, 0x377, 1), (0x37A, 0x37D, 1),
     (0x37F, 0x37F, 1), (0x386, 0x3A0, 2), (0x389, 0x389, 1), (0x38F, 0x481, 2),
     (0x3A4, 0x3F4, 2), (0x3F8, 0x480, 2), (0x48A, 0x52F, 1), (0x531, 0x556, 1),
     (0x560, 0x588, 1), (0x10A0, 0x10C5, 1), (0x10C7, 0x10C7, 1), (0x10CD, 0x10CD, 1),
     (0x10D0, 0x10FA, 1), (0x10FD, 0x10FF, 1), (0x13A0, 0x13F5, 1), (0x13F8, 0x13FD, 1),
     (0x1C80, 0x1C88, 1), (0x1C90, 0x1CBA, 1), (0x1CBD, 0x1CBF, 1), (0x1D00, 0x1DBF, 1),
     (0x1E00, 0x1F15, 1), (0x1F18, 0x1F1D, 1), (0x1F20, 0x1F45, 1), (0x1F48, 0x1F4D, 1),
     (0x1F50, 0x1F57, 1), (0x1F59, 0x1F7D, 2), (0x1F60, 0x1F7C, 2), (0x1F80, 0x1FB4, 1),
     (0x1FB6, 0x1FBC, 1), (0x1FBE, 0x1FBE, 1), (0x1FC2, 0x1FCC, 2), (0x1FC3, 0x1FC3, 1),
     (0x1FC7, 0x1FCB, 2), (0x1FD0, 0x1FD3, 1), (0x1FD6, 0x1FDB, 1), (0x1FE0, 0x1FEC, 1),
     (0x1FF2, 0x1FFC, 2), (0x1FF3, 0x1FF3, 1), (0x1FF7, 0x1FFB, 2), (0x2071, 0x2071, 1),
     (0x207F, 0x207F, 1), (0x2090, 0x209C, 1), (0x2102, 0x2102, 1), (0x2107, 0x2107, 1),
     (0x210A, 0x2113, 1), (0x2115, 0x2115, 1), (0x2119, 0x211D, 1), (0x2124, 0x212C, 2),
     (0x212B, 0x2133, 2), (0x2130, 0x2134, 2), (0x2139, 0x2139, 1), (0x213C, 0x213F, 1),
     (0x2145, 0x2149, 1), (0x214E, 0x214E, 1), (0x2160, 0x217F, 1), (0x2183, 0x2184, 1),
     (0x24B6, 0x24E9, 1), (0x2C00, 0x2CE4, 1), (0x2CEB, 0x2CEE, 1), (0x2CF2, 0x2CF3, 1),
     (0x2D00, 0x2D25, 1), (0x2D27, 0x2D27, 1), (0x2D2D, 0x2D2D, 1), (0xA640, 0xA66D, 1),
     (0xA680, 0xA69D, 1), (0xA722, 0xA787, 1), (0xA78B, 0xA78E, 1), (0xA790, 0xA7CA, 1),
     (0xA7D0, 0xA7D1, 1), (0xA7D3, 0xA7D9, 2), (0xA7D6, 0xA7D8, 2), (0xA7F5, 0xA7F6, 1),
     (0xA7F8, 0xA7FA, 1), (0xAB30, 0xAB5A, 1), (0xAB5C, 0xAB68, 1), (0xAB70, 0xABBF, 1),
     (0xFB00, 0xFB06, 1), (0xFB13, 0xFB17, 1), (0xFF21, 0xFF3A, 1), (0xFF41, 0xFF5A, 1),
     (0x10400, 0x1044F, 1), (0x104B0, 0x104D3, 1), (0x104D8, 0x104FB, 1), (0x10570, 0x10594, 2),
     (0x10571, 0x10579, 2), (0x1057D, 0x10589, 2), (0x1058D, 0x10591, 2), (0x10595, 0x105BB, 2),
     (0x10598, 0x105A0, 2), (0x105A4, 0x105B0, 2), (0x105B4, 0x105B8, 2), (0x105BC, 0x105BC, 1),
     (0x10780, 0x10780, 1), (0x10783, 0x107AF, 2), (0x10784, 0x10784, 1), (0x10788, 0x107BA, 2),
     (0x107B3, 0x107B9, 2), (0x10C80, 0x10CB2, 1), (0x10CC0, 0x10CF2, 1), (0x118A0, 0x118DF, 1),
     (0x16E40, 0x16E7F, 1), (0x1D400, 0x1D454, 1), (0x1D456, 0x1D49C, 1), (0x1D49E, 0x1D49F, 1),
     (0x1D4A2, 0x1D4A2, 1), (0x1D4A5, 0x1D4A6, 1), (0x1D4A9, 0x1D4AC, 1), (0x1D4AE, 0x1D4B9, 1),
     (0x1D4BB, 0x1D509, 2), (0x1D4BE, 0x1D4C2, 2), (0x1D4C6, 0x1D504, 2), (0x1D508, 0x1D50A, 2),
     (0x1D50D, 0x1D514, 1), (0x1D516, 0x1D538, 2), (0x1D517, 0x1D51B, 2), (0x1D51F, 0x1D53D, 2),
     (0x1D53C, 0x1D546, 2), (0x1D541, 0x1D543, 2), (0x1D54A, 0x1D6A4, 2), (0x1D54B, 0x1D54F, 2),
     (0x1D553, 0x1D6A5, 2), (0x1D6A8, 0x1D7CA, 2), (0x1D6A9, 0x1D6BF, 2), (0x1D6C3, 0x1D6D9, 2),
     (0x1D6DD, 0x1D6F9, 2), (0x1D6FD, 0x1D713, 2), (0x1D717, 0x1D733, 2), (0x1D737, 0x1D74D, 2),
     (0x1D751, 0x1D76D, 2), (0x1D771, 0x1D787, 2), (0x1D78B, 0x1D7A7, 2), (0x1D7AB, 0x1D7C1, 2),
     (0x1D7C5, 0x1D7CB, 2), (0x1DF00, 0x1DF09, 1), (0x1DF0B, 0x1DF1E, 1), (0x1E900, 0x1E943, 1),
     (0x1F130, 0x1F149, 1), (0x1F150, 0x1F169, 1), (0x1F170, 0x1F189, 1)]"

text \<open>The characters with the property Case_Ignorable.\<close>

definition case_ignorable_table :: "(int \<times> int \<times> int) list" where
  "case_ignorable_table =
    [(0x27, 0x27, 1), (0x2E, 0x2E, 1), (0x3A, 0x3A, 1), (0x5E, 0x60, 2), (0xA8, 0xA8, 1),
     (0xAD, 0xAF, 2), (0xB4, 0xB4, 1), (0xB7, 0xB8, 1), (0x2B0, 0x36F, 1), (0x374, 0x375, 1),
     (0x37A, 0x37A, 1), (0x384, 0x385, 1), (0x387, 0x387, 1), (0x483, 0x489, 1),
     (0x559, 0x559, 1), (0x55F, 0x55F, 1), (0x591, 0x5BD, 1), (0x5BF, 0x5C1, 2),
     (0x5C2, 0x5C4, 2), (0x5C5, 0x5C7, 2), (0x5F4, 0x5F4, 1), (0x600, 0x605, 1),
     (0x610, 0x61A, 1), (0x61C, 0x61C, 1), (0x640, 0x640, 1), (0x64B, 0x65F, 1),
     (0x670, 0x670, 1), (0x6D6, 0x6DD, 1), (0x6DF, 0x6E8, 1), (0x6EA, 0x6ED, 1),
     (0x70F, 0x711, 2), (0x730, 0x74A, 1), (0x7A6, 0x7B0, 1), (0x7EB, 0x7F5, 1),
     (0x7FA, 0x7FA, 1), (0x7FD, 0x7FD, 1), (0x816, 0x82D, 1), (0x859, 0x85B, 1),
     (0x888, 0x888, 1), (0x890, 0x891, 1), (0x898, 0x89F, 1), (0x8C9, 0x902, 1),
     (0x93A, 0x93C, 2), (0x941, 0x948, 1), (0x94D, 0x94D, 1), (0x951, 0x957, 1),
     (0x962, 0x963, 1), (0x971, 0x971, 1), (0x981, 0x981, 1), (0x9BC, 0x9BC, 1),
     (0x9C1, 0x9C4, 1), (0x9CD, 0x9CD, 1), (0x9E2, 0x9E3, 1), (0x9FE, 0x9FE, 1),
     (0xA01, 0xA02, 1), (0xA3C, 0xA3C, 1), (0xA41, 0xA42, 1), (0xA47, 0xA48, 1),
     (0xA4B, 0xA4D, 1), (0xA51, 0xA51, 1), (0xA70, 0xA71, 1), (0xA75, 0xA75, 1),
     (0xA81, 0xA82, 1), (0xABC, 0xABC, 1), (0xAC1, 0xAC5, 1), (0xAC7, 0xAC8, 1),
     (0xACD, 0xACD, 1), (0xAE2, 0xAE3, 1), (0xAFA, 0xAFF, 1), (0xB01, 0xB01, 1),
     (0xB3C, 0xB3C, 1), (0xB3F, 0xB43, 2), (0xB42, 0xB44, 2), (0xB4D, 0xB4D, 1),
     (0xB55, 0xB56, 1), (0xB62, 0xB63, 1), (0xB82, 0xB82, 1), (0xBC0, 0xBC0, 1),
     (0xBCD, 0xBCD, 1), (0xC00, 0xC00, 1), (0xC04, 0xC04, 1), (0xC3C, 0xC40, 2),
     (0xC3F, 0xC3F, 1), (0xC46, 0xC4C, 2), (0xC47, 0xC47, 1), (0xC4B, 0xC4D, 2),
     (0xC55, 0xC56, 1), (0xC62, 0xC63, 1), (0xC81, 0xC81, 1), (0xCBC, 0xCBC, 1),
     (0xCBF, 0xCBF, 1), (0xCC6, 0xCC6, 1), (0xCCC, 0xCCD, 1), (0xCE2, 0xCE3, 1),
     (0xD00, 0xD01, 1), (0xD3B, 0xD3C, 1), (0xD41, 0xD44, 1), (0xD4D, 0xD4D, 1),
     (0xD62, 0xD63, 1), (0xD81, 0xD81, 1), (0xDCA, 0xDCA, 1), (0xDD2, 0xDD4, 1),
     (0xDD6, 0xDD6, 1), (0xE31, 0xE31, 1), (0xE34, 0xE3A, 1), (0xE46, 0xE4E, 1),
     (0xEB1, 0xEB1, 1), (0xEB4, 0xEBC, 1), (0xEC6, 0xECC, 2), (0xEC9, 0xECD, 2),
     (0xF18, 0xF19, 1), (0xF35, 0xF39, 2), (0xF71, 0xF7E, 1), (0xF80, 0xF84, 1),
     (0xF86, 0xF87, 1), (0xF8D, 0xFBB, 2), (0xF8E, 0xF96, 2), (0xF9A, 0xFBC, 2),
     (0xFC6, 0xFC6, 1), (0x102D, 0x1030, 1), (0x1032, 0x1037, 1), (0x1039, 0x103A, 1),
     (0x103D, 0x103E, 1), (0x1058, 0x1059, 1), (0x105E, 0x1060, 1), (0x1071, 0x1074, 1),
     (0x1082, 0x1082, 1), (0x1085, 0x1086, 1), (0x108D, 0x108D, 1), (0x109D, 0x109D, 1),
     (0x10FC, 0x10FC, 1), (0x135D, 0x135F, 1), (0x1712, 0x1714, 1), (0x1732, 0x1733, 1),
     (0x1752, 0x1753, 1), (0x1772, 0x1773, 1), (0x17B4, 0x17B5, 1), (0x17B7, 0x17BD, 1),
     (0x17C6, 0x17C6, 1), (0x17C9, 0x17D3, 1), (0x17D7, 0x17D7, 1), (0x17DD, 0x17DD, 1),
     (0x180B, 0x180F, 1), (0x1843, 0x1843, 1), (0x1885, 0x1886, 1), (0x18A9, 0x18A9, 1),
     (0x1920, 0x1922, 1), (0x1927, 0x1928, 1), (0x1932, 0x1932, 1), (0x1939, 0x193B, 1),
     (0x1A17, 0x1A18, 1), (0x1A1B, 0x1A1B, 1), (0x1A56, 0x1A62, 2), (0x1A59, 0x1A5D, 2),
     (0x1A65, 0x1A6C, 1), (0x1A73, 0x1A7C, 1), (0x1A7F, 0x1A7F, 1), (0x1AA7, 0x1AA7, 1),
     (0x1AB0, 0x1ACE, 1), (0x1B00, 0x1B03, 1), (0x1B34, 0x1B3C, 2), (0x1B37, 0x1B39, 2),
     (0x1B42, 0x1B42, 1), (0x1B6B, 0x1B73, 1), (0x1B80, 0x1B81, 1), (0x1BA2, 0x1BA5, 1),
     (0x1BA8, 0x1BA9, 1), (0x1BAB, 0x1BAD, 1), (0x1BE6, 0x1BE8, 2), (0x1BE9, 0x1BE9, 1),
     (0x1BED, 0x1BF1, 2), (0x1BF0, 0x1BF0, 1), (0x1C2C, 0x1C33, 1), (0x1C36, 0x1C37, 1),
     (0x1C78, 0x1C7D, 1), (0x1CD0, 0x1CE8, 2), (0x1CD1, 0x1CD1, 1), (0x1CD5, 0x1CDF, 2),
     (0x1CE3, 0x1CE7, 2), (0x1CED, 0x1CED, 1), (0x1CF4, 0x1CF4, 1), (0x1CF8, 0x1CF9, 1),
     (0x1D2C, 0x1D6A, 1), (0x1D78, 0x1D78, 1), (0x1D9B, 0x1DFF, 1), (0x1FBD, 0x1FC1, 2),
     (0x1FC0, 0x1FC0, 1), (0x1FCD, 0x1FCF, 1), (0x1FDD, 0x1FDF, 1), (0x1FED, 0x1FEF, 1),
     (0x1FFD, 0x1FFE, 1), (0x200B, 0x200F, 1), (0x2018, 0x2019, 1), (0x2024, 0x2024, 1),
     (0x2027, 0x2027, 1), (0x202A, 0x202E, 1), (0x2060, 0x206E, 2), (0x2061, 0x2063, 2),
     (0x2067, 0x2071, 2), (0x207F, 0x207F, 1), (0x2090, 0x209C, 1), (0x20D0, 0x20F0, 1),
     (0x2C7C, 0x2C7D, 1), (0x2CEF, 0x2CF1, 1), (0x2D6F, 0x2D6F, 1), (0x2D7F, 0x2D7F, 1),
     (0x2DE0, 0x2DFF, 1), (0x2E2F, 0x2E2F, 1), (0x3005, 0x3005, 1), (0x302A, 0x302D, 1),
     (0x3031, 0x3035, 1), (0x303B, 0x303B, 1), (0x3099, 0x309E, 1), (0x30FC, 0x30FE, 1),
     (0xA015, 0xA015, 1), (0xA4F8, 0xA4FD, 1), (0xA60C, 0xA60C, 1), (0xA66F, 0xA672, 1),
     (0xA674, 0xA67D, 1), (0xA67F, 0xA67F, 1), (0xA69C, 0xA69F, 1), (0xA6F0, 0xA6F1, 1),
     (0xA700, 0xA721, 1), (0xA770, 0xA770, 1), (0xA788, 0xA78A, 1), (0xA7F2, 0xA7F4, 1),
     (0xA7F8, 0xA7F9, 1), (0xA802, 0xA802, 1), (0xA806, 0xA806, 1), (0xA80B, 0xA80B, 1),
     (0xA825, 0xA826, 1), (0xA82C, 0xA82C, 1), (0xA8C4, 0xA8C5, 1), (0xA8E0, 0xA8F1, 1),
     (0xA8FF, 0xA8FF, 1), (0xA926, 0xA92D, 1), (0xA947, 0xA951, 1), (0xA980, 0xA982, 1),
     (0xA9B3, 0xA9B3, 1), (0xA9B6, 0xA9B9, 1), (0xA9BC, 0xA9BD, 1), (0xA9CF, 0xA9CF, 1),
     (0xA9E5, 0xA9E6, 1), (0xAA29, 0xAA2E, 1), (0xAA31, 0xAA32, 1), (0xAA35, 0xAA36, 1),
     (0xAA43, 0xAA43, 1), (0xAA4C, 0xAA4C, 1), (0xAA70, 0xAA70, 1), (0xAA7C, 0xAA7C, 1),
     (0xAAB0, 0xAAB4, 2), (0xAAB3, 0xAAB3, 1), (0xAAB7, 0xAAB8, 1), (0xAABE, 0xAABF, 1),
     (0xAAC1, 0xAAC1, 1), (0xAADD, 0xAADD, 1), (0xAAEC, 0xAAED, 1), (0xAAF3, 0xAAF4, 1),
     (0xAAF6, 0xAAF6, 1), (0xAB5B, 0xAB5F, 1), (0xAB69, 0xAB6B, 1), (0xABE5, 0xABE5, 1),
     (0xABE8, 0xABE8, 1), (0xABED, 0xABED, 1), (0xFB1E, 0xFB1E, 1), (0xFBB2, 0xFBC2, 1),
     (0xFE00, 0xFE0F, 1), (0xFE13, 0xFE13, 1), (0xFE20, 0xFE2F, 1), (0xFE52, 0xFE52, 1),
     (0xFE55, 0xFE55, 1), (0xFEFF, 0xFEFF, 1), (0xFF07, 0xFF07, 1), (0xFF0E, 0xFF0E, 1),
     (0xFF1A, 0xFF1A, 1), (0xFF3E, 0xFF40, 2), (0xFF70, 0xFF70, 1), (0xFF9E, 0xFF9F, 1),
     (0xFFE3, 0xFFE3, 1), (0xFFF9, 0xFFFB, 1), (0x101FD, 0x101FD, 1), (0x102E0, 0x102E0, 1),
     (0x10376, 0x1037A, 1), (0x10780, 0x10785, 1), (0x10787, 0x107B0, 1), (0x107B2, 0x107BA, 1),
     (0x10A01, 0x10A03, 1), (0x10A05, 0x10A06, 1), (0x10A0C, 0x10A0F, 1), (0x10A38, 0x10A3A, 1),
     (0x10A3F, 0x10A3F, 1), (0x10AE5, 0x10AE6, 1), (0x10D24, 0x10D27, 1), (0x10EAB, 0x10EAC, 1),
     (0x10F46, 0x10F50, 1), (0x10F82, 0x10F85, 1), (0x11001, 0x11001, 1), (0x11038, 0x11046, 1),
     (0x11070, 0x11070, 1), (0x11073, 0x11074, 1), (0x1107F, 0x11081, 1), (0x110B3, 0x110B6, 1),
     (0x110B9, 0x110BA, 1), (0x110BD, 0x110BD, 1), (0x110C2, 0x110C2, 1), (0x110CD, 0x110CD, 1),
     (0x11100, 0x11102, 1), (0x11127, 0x11133, 2), (0x11128, 0x1112A, 2), (0x1112E, 0x11134, 2),
     (0x11173, 0x11173, 1), (0x11180, 0x11181, 1), (0x111B6, 0x111BE, 1), (0x111C9, 0x111CC, 1),
     (0x111CF, 0x111CF, 1), (0x1122F, 0x11231, 1), (0x11234, 0x11236, 2), (0x11237, 0x11237, 1),
     (0x1123E, 0x1123E, 1), (0x112DF, 0x112DF, 1), (0x112E3, 0x112EA, 1), (0x11300, 0x11301, 1),
     (0x1133B, 0x1133C, 1), (0x11340, 0x11340, 1), (0x11366, 0x1136C, 1), (0x11370, 0x11374, 1),
     (0x11438, 0x1143F, 1), (0x11442, 0x11444, 1), (0x11446, 0x11446, 1), (0x1145E, 0x1145E, 1),
     (0x114B3, 0x114B8, 1), (0x114BA, 0x114BA, 1), (0x114BF, 0x114C0, 1), (0x114C2, 0x114C3, 1),
     (0x115B2, 0x115B5, 1), (0x115BC, 0x115BD, 1), (0x115BF, 0x115C0, 1), (0x115DC, 0x115DD, 1),
     (0x11633, 0x1163A, 1), (0x1163D, 0x1163F, 2), (0x11640, 0x11640, 1), (0x116AB, 0x116AD, 2),
     (0x116B0, 0x116B5, 1), (0x116B7, 0x116B7, 1), (0x1171D, 0x1171F, 1), (0x11722, 0x11725, 1),
     (0x11727, 0x1172B, 1), (0x1182F, 0x11837, 1), (0x11839, 0x1183A, 1), (0x1193B, 0x1193C, 1),
     (0x1193E, 0x1193E, 1), (0x11943, 0x11943, 1), (0x119D4, 0x119D7, 1), (0x119DA, 0x119DB, 1),
     (0x119E0, 0x119E0, 1), (0x11A01, 0x11A0A, 1), (0x11A33, 0x11A38, 1), (0x11A3B, 0x11A3E, 1),
     (0x11A47, 0x11A47, 1), (0x11A51, 0x11A56, 1), (0x11A59, 0x11A5B, 1), (0x11A8A, 0x11A96, 1),
     (0x11A98, 0x11A99, 1), (0x11C30, 0x11C36, 1), (0x11C38, 0x11C3D, 1), (0x11C3F, 0x11C3F, 1),
     (0x11C92, 0x11CA7, 1), (0x11CAA, 0x11CB0, 1), (0x11CB2, 0x11CB3, 1), (0x11CB5, 0x11CB6, 1),
     (0x11D31, 0x11D36, 1), (0x11D3A, 0x11D3C, 2), (0x11D3D, 0x11D47, 2), (0x11D40, 0x11D44, 2),
     (0x11D90, 0x11D91, 1), (0x11D95, 0x11D97, 2), (0x11EF3, 0x11EF4, 1), (0x13430, 0x13438, 1),
     (0x16AF0, 0x16AF4, 1), (0x16B30, 0x16B36, 1), (0x16B40, 0x16B43, 1), (0x16F4F, 0x16F4F, 1),
     (0x16F8F, 0x16F9F, 1), (0x16FE0, 0x16FE1, 1), (0x16FE3, 0x16FE4, 1), (0x1AFF0, 0x1AFF3, 1),
     (0x1AFF5, 0x1AFFB, 1), (0x1AFFD, 0x1AFFE, 1), (0x1BC9D, 0x1BC9E, 1), (0x1BCA0, 0x1BCA3, 1),
     (0x1CF00, 0x1CF2D, 1), (0x1CF30, 0x1CF46, 1), (0x1D167, 0x1D169, 1), (0x1D173, 0x1D182, 1),
     (0x1D185, 0x1D18B, 1), (0x1D1AA, 0x1D1AD, 1), (0x1D242, 0x1D244, 1), (0x1DA00, 0x1DA36, 1),
     (0x1DA3B, 0x1DA6C, 1), (0x1DA75, 0x1DA75, 1), (0x1DA84, 0x1DA84, 1), (0x1DA9B, 0x1DAAF, 2),
     (0x1DA9C, 0x1DA9E, 2), (0x1DAA2, 0x1DAAE, 2), (0x1E000, 0x1E018, 2), (0x1E001, 0x1E005, 2),
     (0x1E009, 0x1E017, 2), (0x1E01B, 0x1E021, 1), (0x1E023, 0x1E024, 1), (0x1E026, 0x1E02A, 1),
     (0x1E130, 0x1E13D, 1), (0x1E2AE, 0x1E2AE, 1), (0x1E2EC, 0x1E2EF, 1), (0x1E8D0, 0x1E8D6, 1),
     (0x1E944, 0x1E94B, 1), (0x1F3FB, 0x1F3FF, 1), (0xE0001, 0xE0001, 1), (0xE0020, 0xE007F, 1),
     (0xE0100, 0xE01EF, 1)]"

text \<open>
  The characters that \<open>str.lower\<close> changes into one other character. U+0130 becomes the two
  characters U+0069 U+0307 and is not in the table.
\<close>

definition lower_table :: "(int \<times> int \<times> int \<times> int) list" where
  "lower_table =
    [(0x41, 0x5A, 1, 0x20), (0xC0, 0xD6, 1, 0x20), (0xD8, 0xDE, 1, 0x20),
     (0x100, 0x12E, 2, 0x1), (0x132, 0x136, 2, 0x1), (0x139, 0x147, 2, 0x1),
     (0x14A, 0x176, 2, 0x1), (0x178, 0x178, 1, - 0x79), (0x179, 0x17D, 2, 0x1),
     (0x181, 0x181, 1, 0xD2), (0x182, 0x184, 2, 0x1), (0x186, 0x186, 1, 0xCE),
     (0x187, 0x187, 1, 0x1), (0x189, 0x18A, 1, 0xCD), (0x18B, 0x18B, 1, 0x1),
     (0x18E, 0x18E, 1, 0x4F), (0x18F, 0x18F, 1, 0xCA), (0x190, 0x190, 1, 0xCB),
     (0x191, 0x191, 1, 0x1), (0x193, 0x193, 1, 0xCD), (0x194, 0x194, 1, 0xCF),
     (0x196, 0x196, 1, 0xD3), (0x197, 0x197, 1, 0xD1), (0x198, 0x198, 1, 0x1),
     (0x19C, 0x19C, 1, 0xD3), (0x19D, 0x19D, 1, 0xD5), (0x19F, 0x19F, 1, 0xD6),
     (0x1A0, 0x1A4, 2, 0x1), (0x1A6, 0x1A6, 1, 0xDA), (0x1A7, 0x1A7, 1, 0x1),
     (0x1A9, 0x1A9, 1, 0xDA), (0x1AC, 0x1AC, 1, 0x1), (0x1AE, 0x1AE, 1, 0xDA),
     (0x1AF, 0x1AF, 1, 0x1), (0x1B1, 0x1B2, 1, 0xD9), (0x1B3, 0x1B5, 2, 0x1),
     (0x1B7, 0x1B7, 1, 0xDB), (0x1B8, 0x1B8, 1, 0x1), (0x1BC, 0x1BC, 1, 0x1),
     (0x1C4, 0x1C4, 1, 0x2), (0x1C5, 0x1C5, 1, 0x1), (0x1C7, 0x1C7, 1, 0x2),
     (0x1C8, 0x1C8, 1, 0x1), (0x1CA, 0x1CA, 1, 0x2), (0x1CB, 0x1DB, 2, 0x1),
     (0x1DE, 0x1EE, 2, 0x1), (0x1F1, 0x1F1, 1, 0x2), (0x1F2, 0x1F4, 2, 0x1),
     (0x1F6, 0x1F6, 1, - 0x61), (0x1F7, 0x1F7, 1, - 0x38), (0x1F8, 0x21E, 2, 0x1),
     (0x220, 0x220, 1, - 0x82), (0x222, 0x232, 2, 0x1), (0x23A, 0x23A, 1, 0x2A2B),
     (0x23B, 0x23B, 1, 0x1), (0x23D, 0x23D, 1, - 0xA3), (0x23E, 0x23E, 1, 0x2A28),
     (0x241, 0x241, 1, 0x1), (0x243, 0x243, 1, - 0xC3), (0x244, 0x244, 1, 0x45),
     (0x245, 0x245, 1, 0x47), (0x246, 0x24E, 2, 0x1), (0x370, 0x372, 2, 0x1),
     (0x376, 0x376, 1, 0x1), (0x37F, 0x37F, 1, 0x74), (0x386, 0x386, 1, 0x26),
     (0x388, 0x38A, 1, 0x25), (0x38C, 0x38C, 1, 0x40), (0x38E, 0x38F, 1, 0x3F),
     (0x391, 0x3A1, 1, 0x20), (0x3A3, 0x3AB, 1, 0x20), (0x3CF, 0x3CF, 1, 0x8),
     (0x3D8, 0x3EE, 2, 0x1), (0x3F4, 0x3F4, 1, - 0x3C), (0x3F7, 0x3F7, 1, 0x1),
     (0x3F9, 0x3F9, 1, - 0x7), (0x3FA, 0x3FA, 1, 0x1), (0x3FD, 0x3FF, 1, - 0x82),
     (0x400, 0x40F, 1, 0x50), (0x410, 0x42F, 1, 0x20), (0x460, 0x480, 2, 0x1),
     (0x48A, 0x4BE, 2, 0x1), (0x4C0, 0x4C0, 1, 0xF), (0x4C1, 0x4CD, 2, 0x1),
     (0x4D0, 0x52E, 2, 0x1), (0x531, 0x556, 1, 0x30), (0x10A0, 0x10C5, 1, 0x1C60),
     (0x10C7, 0x10C7, 1, 0x1C60), (0x10CD, 0x10CD, 1, 0x1C60), (0x13A0, 0x13EF, 1, 0x97D0),
     (0x13F0, 0x13F5, 1, 0x8), (0x1C90, 0x1CBA, 1, - 0xBC0), (0x1CBD, 0x1CBF, 1, - 0xBC0),
     (0x1E00, 0x1E94, 2, 0x1), (0x1E9E, 0x1E9E, 1, - 0x1DBF), (0x1EA0, 0x1EFE, 2, 0x1),
     (0x1F08, 0x1F0F, 1, - 0x8), (0x1F18, 0x1F1D, 1, - 0x8), (0x1F28, 0x1F2F, 1, - 0x8),
     (0x1F38, 0x1F3F, 1, - 0x8), (0x1F48, 0x1F4D, 1, - 0x8), (0x1F59, 0x1F5F, 2, - 0x8),
     (0x1F68, 0x1F6F, 1, - 0x8), (0x1F88, 0x1F8F, 1, - 0x8), (0x1F98, 0x1F9F, 1, - 0x8),
     (0x1FA8, 0x1FAF, 1, - 0x8), (0x1FB8, 0x1FB9, 1, - 0x8), (0x1FBA, 0x1FBB, 1, - 0x4A),
     (0x1FBC, 0x1FBC, 1, - 0x9), (0x1FC8, 0x1FCB, 1, - 0x56), (0x1FCC, 0x1FCC, 1, - 0x9),
     (0x1FD8, 0x1FD9, 1, - 0x8), (0x1FDA, 0x1FDB, 1, - 0x64), (0x1FE8, 0x1FE9, 1, - 0x8),
     (0x1FEA, 0x1FEB, 1, - 0x70), (0x1FEC, 0x1FEC, 1, - 0x7), (0x1FF8, 0x1FF9, 1, - 0x80),
     (0x1FFA, 0x1FFB, 1, - 0x7E), (0x1FFC, 0x1FFC, 1, - 0x9), (0x2126, 0x2126, 1, - 0x1D5D),
     (0x212A, 0x212A, 1, - 0x20BF), (0x212B, 0x212B, 1, - 0x2046), (0x2132, 0x2132, 1, 0x1C),
     (0x2160, 0x216F, 1, 0x10), (0x2183, 0x2183, 1, 0x1), (0x24B6, 0x24CF, 1, 0x1A),
     (0x2C00, 0x2C2F, 1, 0x30), (0x2C60, 0x2C60, 1, 0x1), (0x2C62, 0x2C62, 1, - 0x29F7),
     (0x2C63, 0x2C63, 1, - 0xEE6), (0x2C64, 0x2C64, 1, - 0x29E7), (0x2C67, 0x2C6B, 2, 0x1),
     (0x2C6D, 0x2C6D, 1, - 0x2A1C), (0x2C6E, 0x2C6E, 1, - 0x29FD),
     (0x2C6F, 0x2C6F, 1, - 0x2A1F), (0x2C70, 0x2C70, 1, - 0x2A1E), (0x2C72, 0x2C72, 1, 0x1),
     (0x2C75, 0x2C75, 1, 0x1), (0x2C7E, 0x2C7F, 1, - 0x2A3F), (0x2C80, 0x2CE2, 2, 0x1),
     (0x2CEB, 0x2CED, 2, 0x1), (0x2CF2, 0x2CF2, 1, 0x1), (0xA640, 0xA66C, 2, 0x1),
     (0xA680, 0xA69A, 2, 0x1), (0xA722, 0xA72E, 2, 0x1), (0xA732, 0xA76E, 2, 0x1),
     (0xA779, 0xA77B, 2, 0x1), (0xA77D, 0xA77D, 1, - 0x8A04), (0xA77E, 0xA786, 2, 0x1),
     (0xA78B, 0xA78B, 1, 0x1), (0xA78D, 0xA78D, 1, - 0xA528), (0xA790, 0xA792, 2, 0x1),
     (0xA796, 0xA7A8, 2, 0x1), (0xA7AA, 0xA7AA, 1, - 0xA544), (0xA7AB, 0xA7AB, 1, - 0xA54F),
     (0xA7AC, 0xA7AC, 1, - 0xA54B), (0xA7AD, 0xA7AD, 1, - 0xA541),
     (0xA7AE, 0xA7AE, 1, - 0xA544), (0xA7B0, 0xA7B0, 1, - 0xA512),
     (0xA7B1, 0xA7B1, 1, - 0xA52A), (0xA7B2, 0xA7B2, 1, - 0xA515), (0xA7B3, 0xA7B3, 1, 0x3A0),
     (0xA7B4, 0xA7C2, 2, 0x1), (0xA7C4, 0xA7C4, 1, - 0x30), (0xA7C5, 0xA7C5, 1, - 0xA543),
     (0xA7C6, 0xA7C6, 1, - 0x8A38), (0xA7C7, 0xA7C9, 2, 0x1), (0xA7D0, 0xA7D0, 1, 0x1),
     (0xA7D6, 0xA7D8, 2, 0x1), (0xA7F5, 0xA7F5, 1, 0x1), (0xFF21, 0xFF3A, 1, 0x20),
     (0x10400, 0x10427, 1, 0x28), (0x104B0, 0x104D3, 1, 0x28), (0x10570, 0x10594, 2, 0x27),
     (0x10571, 0x10579, 2, 0x27), (0x1057D, 0x10589, 2, 0x27), (0x1058D, 0x10591, 2, 0x27),
     (0x10595, 0x10595, 1, 0x27), (0x10C80, 0x10CB2, 1, 0x40), (0x118A0, 0x118BF, 1, 0x20),
     (0x16E40, 0x16E5F, 1, 0x20), (0x1E900, 0x1E921, 1, 0x22)]"

definition isupper_cp :: "int \<Rightarrow> bool" where
  "isupper_cp c = in_table c upper_table"

definition cased_cp :: "int \<Rightarrow> bool" where
  "cased_cp c = in_table c cased_table"

definition case_ignorable_cp :: "int \<Rightarrow> bool" where
  "case_ignorable_cp c = in_table c case_ignorable_table"

definition lower_cp :: "int \<Rightarrow> int" where
  "lower_cp c = (case lookup_delta c lower_table of None \<Rightarrow> c | Some d \<Rightarrow> c + d)"

definition isspace_cp :: "int \<Rightarrow> bool" where
  "isspace_cp c \<longleftrightarrow> (0x09 \<le> c \<and> c \<le> 0x0D) \<or> (0x1C \<le> c \<and> c \<le> 0x20) \<or> c = 0x85 \<or> c = 0xA0
     \<or> c = 0x1680 \<or> (0x2000 \<le> c \<and> c \<le> 0x200A) \<or> c = 0x2028 \<or> c = 0x2029 \<or> c = 0x202F
     \<or> c = 0x205F \<or> c = 0x3000"

definition isword_cp :: "int \<Rightarrow> bool" where
  "isword_cp c \<longleftrightarrow> (0x30 \<le> c \<and> c \<le> 0x39) \<or> (0x41 \<le> c \<and> c \<le> 0x5A) \<or> c = 0x5F
     \<or> (0x61 \<le> c \<and> c \<le> 0x7A) \<or> c = 0xAA \<or> c = 0xB2 \<or> c = 0xB3 \<or> c = 0xB5 \<or> c = 0xB9
     \<or> c = 0xBA \<or> (0xBC \<le> c \<and> c \<le> 0xBE) \<or> (0xC0 \<le> c \<and> c \<le> 0xD6)
     \<or> (0xD8 \<le> c \<and> c \<le> 0xF6) \<or> (0xF8 \<le> c \<and> c \<le> 0xFF) \<or> (0x1D400 \<le> c \<and> c \<le> 0x1D419)"

subsection \<open>String operations\<close>

text \<open>
  \<open>s.lower()\<close> goes through the string character by character. The capital sigma U+03A3
  becomes the final sigma U+03C2 when a cased character stands before it and none after
  it, case-ignorable characters skipped on both sides, and the small sigma U+03C3
  otherwise. \<open>left\<close> holds the characters that precede, the nearest first, and \<open>right\<close>
  the characters that follow.
\<close>

definition final_sigma :: "pystr \<Rightarrow> pystr \<Rightarrow> bool" where
  "final_sigma left right =
     ((case dropWhile case_ignorable_cp left of [] \<Rightarrow> False | c # cs \<Rightarrow> cased_cp c)
      \<and> (case dropWhile case_ignorable_cp right of [] \<Rightarrow> True | c # cs \<Rightarrow> \<not> cased_cp c))"

definition lower_at :: "pystr \<Rightarrow> int \<Rightarrow> pystr \<Rightarrow> pystr" where
  "lower_at left c right =
     (if c = 0x3A3 then [if final_sigma left right then 0x3C2 else 0x3C3]
      else if c = 0x130 then [0x69, 0x307]
      else [lower_cp c])"

fun lower_from :: "pystr \<Rightarrow> pystr \<Rightarrow> pystr" where
  "lower_from left [] = []"
| "lower_from left (c # right) = lower_at left c right @ lower_from (c # left) right"

definition py_lower :: "pystr \<Rightarrow> pystr" where
  "py_lower s = lower_from [] s"

text \<open>\<open>s.startswith(sub)\<close>\<close>

fun startswith :: "pystr \<Rightarrow> pystr \<Rightarrow> bool" where
  "startswith [] s = True"
| "startswith (x # xs) [] = False"
| "startswith (x # xs) (c # cs) = (x = c \<and> startswith xs cs)"

text \<open>\<open>sub in s\<close>\<close>

fun contains :: "pystr \<Rightarrow> pystr \<Rightarrow> bool" where
  "contains sub [] = (sub = [])"
| "contains sub (c # cs) = (startswith sub (c # cs) \<or> contains sub cs)"

text \<open>
  \<open>s.count(sub)\<close>, the number of non-overlapping occurrences found from the left:
  \<open>count_from sub k s\<close> skips the \<open>k\<close> characters that remain of the last occurrence.
\<close>

fun count_from :: "pystr \<Rightarrow> nat \<Rightarrow> pystr \<Rightarrow> nat" where
  "count_from sub k [] = 0"
| "count_from sub k (c # cs) =
     (if 0 < k then count_from sub (k - 1) cs
      else if startswith sub (c # cs) then 1 + count_from sub (length sub - 1) cs
      else count_from sub 0 cs)"

definition count_sub :: "pystr \<Rightarrow> pystr \<Rightarrow> nat" where
  "count_sub sub s = (if sub = [] then length s + 1 else count_from sub 0 s)"

text \<open>\<open>s.split()\<close>: the maximal runs of characters that are not whitespace.\<close>

fun words_acc :: "pystr \<Rightarrow> pystr \<Rightarrow> pystr list" where
  "words_acc cur [] = (if cur = [] then [] else [cur])"
| "words_acc cur (c # cs) =
     (if isspace_cp c then (if cur = [] then words_acc [] cs else cur # words_acc [] cs)
      else words_acc (cur @ [c]) cs)"

definition split_ws :: "pystr \<Rightarrow> pystr list" where
  "split_ws s = words_acc [] s"

text \<open>
  \<open>sum(1 for c in s if c.isupper()) / len(s) if s else 0\<close>, the share of uppercase
  characters, as both the sentiment analyzer and the complaint detector compute it.
\<close>

definition caps_ratio :: "pystr \<Rightarrow> rat" where
  "caps_ratio s = (if s = [] then 0 else of_nat (length (filter isupper_cp s)) / of_nat (length s))"


definition caps_bonus :: "pystr \<Rightarrow> rat" where
  "caps_bonus content = (if 0.3 < caps_ratio content then 1.0 else 0)"


subsection \<open>Regular expressions of the lexicons\<close>

text \<open>
  Every pattern of the lexicons is a sequence of literals joined by \<open>.*\<close>, as in
  \<open>free.*mobile.*nul\<close>; it is kept as the list of its literals. \<open>.\<close> matches any
  character but the newline U+000A. \<open>match_rest ls s\<close> says that \<open>.*l1.*l2...\<close> matches a
  prefix of \<open>s\<close>; \<open>re_search\<close> is \<open>re.search\<close>, which tries every start position.
\<close>

type_synonym pattern = "pystr list"

fun match_rest :: "pattern \<Rightarrow> pystr \<Rightarrow> bool" where
  "match_rest [] s = True"
| "match_rest (l # ls) s =
     ((startswith l s \<and> match_rest ls (drop (length l) s))
      \<or> (case s of [] \<Rightarrow> False | c # cs \<Rightarrow> c \<noteq> 0x0A \<and> match_rest (l # ls) cs))"

fun re_search :: "pattern \<Rightarrow> pystr \<Rightarrow> bool" where
  "re_search [] s = True"
| "re_search (l # ls) s =
     ((startswith l s \<and> match_rest ls (drop (length l) s))
      \<or> (case s of [] \<Rightarrow> False | c # cs \<Rightarrow> re_search (l # ls) cs))"

section \<open>Complaint detector (processors/complaint_detector.py)\<close>

definition complaint_keywords :: "pystr list" where
  "complaint_keywords =
    [asc ''nul'', asc ''nulle'', asc ''horrible'', asc ''terrible'', asc ''catastrophe'',
     asc ''d'' @ [0xE9] @ asc ''sastre'',
     asc ''mauvais'', asc ''mal'', asc ''malheureux'',
     asc ''d'' @ [0xE9, 0xE7] @ asc ''u'',
     asc ''d'' @ [0xE9] @ asc ''cevant'', asc ''frustrant'',
     [0xE9] @ asc ''nervant'', asc ''agac'' @ [0xE9],
     asc ''f'' @ [0xE2] @ asc ''ch'' @ [0xE9],
     asc ''en col'' @ [0xE8] @ asc ''re'', asc ''furieux'',
     asc ''exasp'' @ [0xE9] @ asc ''r'' @ [0xE9],
     asc ''d'' @ [0xE9] @ asc ''go'' @ [0xFB] @ asc ''t'' @ [0xE9],
     asc ''r'' @ [0xE9] @ asc ''volt'' @ [0xE9], asc ''scandalis'' @ [0xE9],
     asc ''indign'' @ [0xE9], asc ''outr'' @ [0xE9],
     asc ''probl'' @ [0xE8] @ asc ''me'', asc ''bug'', asc ''erreur'',
     asc ''dysfonctionnement'', asc ''panne'',
     asc ''plainte'', asc ''r'' @ [0xE9] @ asc ''clamation'',
     asc ''r'' @ [0xE9] @ asc ''mun'' @ [0xE9] @ asc ''ration'',
     asc ''d'' @ [0xE9] @ asc ''dommagement'']"

text \<open>The list of negative emojis repeats some entries, as the source does.\<close>

definition negative_emojis :: "pystr list" where
  "negative_emojis =
    [[0x1F620], [0x1F621], [0x1F92C], [0x1F624], [0x1F61E], [0x1F622], [0x1F62D], [0x1F44E],
     [0x274C], [0x1F494], [0x1F612],
     [0x1F92E], [0x1F922], [0x1F624], [0x1F620], [0x1F621], [0x1F92C], [0x1F624], [0x1F61E],
     [0x1F622], [0x1F62D]]"

definition complaint_patterns :: "pattern list" where
  "complaint_patterns =
    [[asc ''je'', asc ''suis'', asc ''d'' @ [0xE9, 0xE7] @ asc ''u''],
     [asc ''c'' @ [0x27] @ asc ''est'', asc ''nul''],
     [[0xE7] @ asc ''a'', asc ''marche'', asc ''pas''],
     [asc ''service'', asc ''client'', asc ''nul''],
     [asc ''free'', asc ''mobile'', asc ''nul''],
     [asc ''jamais'', asc ''plus'', asc ''free''],
     [asc ''je'', asc ''vais'', asc ''changer''],
     [asc ''r'' @ [0xE9] @ asc ''silier'', asc ''contrat''],
     [asc ''plainte'', asc ''contre''],
     [asc ''r'' @ [0xE9] @ asc ''clamation'', asc ''free'']]"

definition cd_negations :: "pystr list" where
  "cd_negations =
    [asc ''pas'', asc ''ne'', asc ''n'' @ [0x27], asc ''jamais'', asc ''rien'', asc ''aucun'',
     asc ''nul'', asc ''nulle'']"

definition strong_keywords :: "pystr list" where
  "strong_keywords = [asc ''nul'', asc ''horrible'', asc ''terrible'', asc ''catastrophe'']"

definition count_negative_emojis :: "pystr \<Rightarrow> nat" where
  "count_negative_emojis content = sum_list (map (\<lambda>emoji. count_sub emoji content) negative_emojis)"

text \<open>The four loops and two bonuses of \<open>_calculate_complaint_score\<close>, in its order.\<close>

definition keyword_points :: "pystr \<Rightarrow> rat" where
  "keyword_points content =
     sum_list (map (\<lambda>keyword. if contains keyword content
                               then 1.0 + (if keyword \<in> set strong_keywords then 0.5 else 0)
                               else 0) complaint_keywords)"

definition pattern_points :: "pystr \<Rightarrow> rat" where
  "pattern_points content =
     sum_list (map (\<lambda>p. if re_search p content then 2.0 else 0) complaint_patterns)"

definition repetition_points :: "pystr \<Rightarrow> rat" where
  "repetition_points content =
     sum_list (map (\<lambda>keyword. let count = count_sub keyword content
                               in if 1 < count then of_nat (count - 1) * 0.3 else 0) complaint_keywords)"

definition calculate_complaint_score :: "pystr \<Rightarrow> rat" where
  "calculate_complaint_score content =
     keyword_points content + pattern_points content
     + of_nat (count_negative_emojis content) * 0.5
     + repetition_points content
     + caps_bonus content
     + of_nat (count_sub (asc ''!'') content) * 0.2"

definition find_complaint_keywords :: "pystr \<Rightarrow> pystr list" where
  "find_complaint_keywords content = filter (\<lambda>keyword. contains keyword content) complaint_keywords"

definition find_complaint_patterns :: "pystr \<Rightarrow> pattern list" where
  "find_complaint_patterns content = filter (\<lambda>p. re_search p content) complaint_patterns"

definition cd_has_negation :: "pystr \<Rightarrow> bool" where
  "cd_has_negation content = (\<exists>negation \<in> set cd_negations. contains negation content)"

definition calculate_urgency :: "rat \<Rightarrow> nat \<Rightarrow> nat \<Rightarrow> nat \<Rightarrow> string" where
  "calculate_urgency complaint_score emoji_count keyword_count pattern_count =
     (let urgency_score = complaint_score + of_nat emoji_count * 0.5 + of_nat keyword_count * 0.3
                          + of_nat pattern_count * 0.5
      in if 8 \<le> urgency_score then ''urgent''
         else if 5 \<le> urgency_score then ''high''
         else if 3 \<le> urgency_score then ''medium''
         else ''low'')"

definition billing_keywords :: "pystr list" where
  "billing_keywords =
    [asc ''facture'', asc ''facturation'', asc ''paiement'',
     asc ''pr'' @ [0xE9] @ asc ''l'' @ [0xE8] @ asc ''vement'',
     asc ''co'' @ [0xFB] @ asc ''t'', asc ''prix'']"

definition tech_keywords :: "pystr list" where
  "tech_keywords =
    [asc ''probl'' @ [0xE8] @ asc ''me'', asc ''bug'', asc ''erreur'', asc ''connexion'',
     asc ''r'' @ [0xE9] @ asc ''seau'', asc ''signal'', asc ''wifi'']"

definition service_keywords :: "pystr list" where
  "service_keywords =
    [asc ''service'', asc ''client'', asc ''support'', asc ''aide'',
     asc ''r'' @ [0xE9] @ asc ''ponse'', asc ''attente'']"

definition cancellation_keywords :: "pystr list" where
  "cancellation_keywords =
    [asc ''r'' @ [0xE9] @ asc ''silier'', asc ''annuler'', asc ''arr'' @ [0xEA] @ asc ''ter'',
     asc ''changer'', asc ''op'' @ [0xE9] @ asc ''rateur'']"

text \<open>The second argument, the keywords found, is not read by the source.\<close>

definition classify_complaint_type :: "pystr \<Rightarrow> pystr list \<Rightarrow> string" where
  "classify_complaint_type content keywords =
     (if \<exists>keyword \<in> set billing_keywords. contains keyword content then ''billing''
      else if \<exists>keyword \<in> set tech_keywords. contains keyword content then ''technical''
      else if \<exists>keyword \<in> set service_keywords. contains keyword content then ''customer_service''
      else if \<exists>keyword \<in> set cancellation_keywords. contains keyword content then ''cancellation''
      else ''general'')"

definition cd_analyze_sentiment :: "pystr \<Rightarrow> rat \<Rightarrow> string" where
  "cd_analyze_sentiment content complaint_score =
     (if 5 \<le> complaint_score then ''very_negative''
      else if 3 \<le> complaint_score then ''negative''
      else if 1 \<le> complaint_score then ''slightly_negative''
      else ''neutral'')"

record complaint_result =
  is_complaint :: bool
  complaint_score :: rat
  cr_confidence :: rat
  cr_urgency :: string
  cr_type :: string
  cr_keywords_found :: "pystr list"
  patterns_found :: "pattern list"
  negative_emoji_count :: nat
  has_negation :: bool
  cr_sentiment :: string

text \<open>
  \<open>detect_complaint\<close>. The score, the keywords, the patterns and the type are computed on
  the lowercased content, the emoji count on the content as given. No step of the body
  raises on a \<open>str\<close>, so the \<open>except\<close> branch is not part of the model.
\<close>

definition detect_complaint :: "pystr \<Rightarrow> complaint_result" where
  "detect_complaint content =
     (let content_lower = py_lower content;
          score = calculate_complaint_score content_lower;
          found_keywords = find_complaint_keywords content_lower;
          found_patterns = find_complaint_patterns content_lower;
          emoji_count = count_negative_emojis content;
          negation = cd_has_negation content_lower;
          urgency = calculate_urgency score emoji_count (length found_keywords) (length found_patterns);
          ctype = classify_complaint_type content_lower found_keywords;
          confidence = min (score / 10.0) 1.0
      in \<lparr> is_complaint = (3.0 \<le> score), complaint_score = score, cr_confidence = confidence,
           cr_urgency = urgency, cr_type = ctype, cr_keywords_found = found_keywords,
           patterns_found = found_patterns, negative_emoji_count = emoji_count,
           has_negation = negation, cr_sentiment = cd_analyze_sentiment content_lower score \<rparr>)"

text \<open>
  The first example of \<open>get_complaint_examples\<close>, "Free Mobile c'est nul, [c cedilla]a marche
  jamais !", which that list labels \<open>technical\<close> with urgency \<open>high\<close>.
\<close>

definition example_complaint :: pystr where
  "example_complaint =
     asc ''Free Mobile c'' @ [0x27] @ asc ''est nul, '' @ [0xE7] @ asc ''a marche jamais !''"

section \<open>Intent detector (ai_engine/models/intent_detector.py)\<close>

text \<open>
  \<open>re.search(pattern, message, re.IGNORECASE)\<close>: characters are compared up to case. The
  patterns are lowercase literals of Basic Latin and Latin-1 Supplement and the message
  is lowercased before the search; the lowercase forms of pattern and message are
  compared.
\<close>

definition re_search_ignorecase :: "pattern \<Rightarrow> pystr \<Rightarrow> bool" where
  "re_search_ignorecase p s = re_search (map py_lower p) (py_lower s)"

record intent_config =
  cfg_keywords :: "pystr list"
  cfg_patterns :: "pattern list"

definition facturation_keywords :: "pystr list" where
  "facturation_keywords =
    [asc ''facture'', asc ''facturation'', asc ''paiement'',
     asc ''pr'' @ [0xE9] @ asc ''l'' @ [0xE8] @ asc ''vement'',
     asc ''d'' @ [0xE9] @ asc ''bit'', asc ''co'' @ [0xFB] @ asc ''t'', asc ''prix'',
     asc ''tarif'', asc ''montant'', asc ''euros'', [0x20AC], asc ''billing'',
     asc ''consommation'', asc ''d'' @ [0xE9] @ asc ''passement'', asc ''forfait'',
     asc ''data'', asc ''go'', asc ''mo'', asc ''sms'', asc ''appel'', asc ''minute'',
     asc ''internet'', asc ''4g'', asc ''5g'']"

definition facturation_patterns :: "pattern list" where
  "facturation_patterns =
    [[asc ''combien'', asc ''co'' @ [0xFB] @ asc ''t''], [asc ''prix'', asc ''forfait''],
     [asc ''facture'', asc ''montant''],
     [asc ''d'' @ [0xE9] @ asc ''passement'', asc ''data''],
     [asc ''consommation'', asc ''internet'']]"

definition technique_keywords :: "pystr list" where
  "technique_keywords =
    [asc ''probl'' @ [0xE8] @ asc ''me'', asc ''bug'', asc ''erreur'',
     asc ''ne marche pas'', asc ''fonctionne pas'', asc ''connexion'',
     asc ''r'' @ [0xE9] @ asc ''seau'', asc ''signal'', asc ''4g'', asc ''5g'',
     asc ''wifi'', asc ''bluetooth'', asc ''appareil'',
     asc ''t'' @ [0xE9] @ asc ''l'' @ [0xE9] @ asc ''phone'', asc ''smartphone'',
     asc ''sim'', asc ''carte sim'', asc ''d'' @ [0xE9] @ asc ''pannage'',
     asc ''red'' @ [0xE9] @ asc ''marrage'', asc ''reset'',
     asc ''param'' @ [0xE8] @ asc ''tres'', asc ''configuration'']"

definition technique_patterns :: "pattern list" where
  "technique_patterns =
    [[asc ''ne'', asc ''fonctionne'', asc ''pas''],
     [asc ''probl'' @ [0xE8] @ asc ''me'', asc ''connexion''],
     [asc ''erreur'', asc ''r'' @ [0xE9] @ asc ''seau''], [asc ''signal'', asc ''faible''],
     [asc ''wifi'', asc ''marche'', asc ''pas'']]"

definition forfait_keywords :: "pystr list" where
  "forfait_keywords =
    [asc ''forfait'', asc ''offre'', asc ''tarif'', asc ''abonnement'',
     asc ''souscription'', asc ''changer'', asc ''modifier'', asc ''upgrade'',
     asc ''downgrade'', asc ''migration'', asc ''nouveau'', asc ''nouvelle'',
     asc ''offre'', asc ''promo'', asc ''r'' @ [0xE9] @ asc ''duction'',
     asc ''illimit'' @ [0xE9], asc ''data'', asc ''sms'', asc ''appels'', asc ''internet'']"

definition forfait_patterns :: "pattern list" where
  "forfait_patterns =
    [[asc ''changer'', asc ''forfait''], [asc ''nouveau'', asc ''forfait''],
     [asc ''offre'', asc ''disponible''], [asc ''migration'', asc ''forfait''],
     [asc ''tarif'', asc ''forfait'']]"

definition resiliation_keywords :: "pystr list" where
  "resiliation_keywords =
    [asc ''r'' @ [0xE9] @ asc ''silier'', asc ''r'' @ [0xE9] @ asc ''siliation'',
     asc ''annuler'', asc ''arr'' @ [0xEA] @ asc ''ter'', asc ''stopper'', asc ''quitter'',
     asc ''partir'', asc ''changer'', asc ''op'' @ [0xE9] @ asc ''rateur'',
     asc ''concurrent'', asc ''d'' @ [0xE9] @ asc ''part'', asc ''fin'', asc ''terminer'',
     asc ''cl'' @ [0xF4] @ asc ''turer'', asc ''fermer'']"

definition resiliation_patterns :: "pattern list" where
  "resiliation_patterns =
    [[asc ''r'' @ [0xE9] @ asc ''silier'', asc ''contrat''],
     [asc ''arr'' @ [0xEA] @ asc ''ter'', asc ''forfait''],
     [asc ''changer'', asc ''op'' @ [0xE9] @ asc ''rateur''],
     [asc ''partir'', asc ''free''], [asc ''annuler'', asc ''abonnement'']]"

definition livraison_keywords :: "pystr list" where
  "livraison_keywords =
    [asc ''livraison'', asc ''livrer'', asc ''exp'' @ [0xE9] @ asc ''dition'',
     asc ''colis'', asc ''commande'', asc ''suivi'', asc ''tracking'',
     asc ''r'' @ [0xE9] @ asc ''ception'', asc ''re'' @ [0xE7] @ asc ''u'',
     asc ''arriv'' @ [0xE9], asc ''retard'', asc ''en retard'', asc ''perdu'',
     asc ''vol'' @ [0xE9], asc ''vol'']"

definition livraison_patterns :: "pattern list" where
  "livraison_patterns =
    [[asc ''livraison'', asc ''commande''], [asc ''suivi'', asc ''colis''],
     [asc ''retard'', asc ''livraison''], [asc ''colis'', asc ''perdu'']]"

definition commande_keywords :: "pystr list" where
  "commande_keywords =
    [asc ''commander'', asc ''commande'', asc ''achat'', asc ''acheter'',
     asc ''souscrire'', asc ''souscription'', asc ''nouveau'', asc ''nouvelle'',
     asc ''sim'', asc ''carte'', asc ''t'' @ [0xE9] @ asc ''l'' @ [0xE9] @ asc ''phone'',
     asc ''smartphone'', asc ''appareil'', [0xE9] @ asc ''quipement'']"

definition commande_patterns :: "pattern list" where
  "commande_patterns =
    [[asc ''commander'', asc ''forfait''], [asc ''nouveau'', asc ''abonnement''],
     [asc ''souscrire'', asc ''offre''], [asc ''acheter'', asc ''sim'']]"

definition facturation_subcategories :: "(string \<times> pystr list) list" where
  "facturation_subcategories =
    [(''data'', [asc ''data'', asc ''internet'', asc ''4g'', asc ''5g'', asc ''go'', asc ''mo'', asc ''d'' @ [0xE9] @ asc ''passement'']),
     (''appels'', [asc ''appel'', asc ''minute'', asc ''sms'', asc ''mms'', asc ''communication'']),
     (''facture'', [asc ''facture'', asc ''pr'' @ [0xE9] @ asc ''l'' @ [0xE8] @ asc ''vement'', asc ''paiement'', asc ''montant''])]"

definition technique_subcategories :: "(string \<times> pystr list) list" where
  "technique_subcategories =
    [(''connexion'', [asc ''connexion'', asc ''r'' @ [0xE9] @ asc ''seau'', asc ''signal'', asc ''4g'', asc ''5g'']),
     (''appareil'', [asc ''t'' @ [0xE9] @ asc ''l'' @ [0xE9] @ asc ''phone'', asc ''smartphone'', asc ''appareil'', asc ''sim'']),
     (''wifi'', [asc ''wifi'', asc ''wifi'', asc ''bluetooth'', asc ''param'' @ [0xE8] @ asc ''tres''])]"

definition forfait_subcategories :: "(string \<times> pystr list) list" where
  "forfait_subcategories =
    [(''data'', [asc ''data'', asc ''internet'', asc ''illimit'' @ [0xE9], asc ''limit'' @ [0xE9]]),
     (''communication'', [asc ''appels'', asc ''sms'', asc ''illimit'' @ [0xE9], asc ''limit'' @ [0xE9]]),
     (''prix'', [asc ''prix'', asc ''tarif'', asc ''co'' @ [0xFB] @ asc ''t'', asc ''euros'', [0x20AC]])]"

text \<open>\<open>intent_patterns\<close>, a dict, in its insertion order.\<close>

definition intent_patterns :: "(string \<times> intent_config) list" where
  "intent_patterns =
    [(''facturation'', \<lparr> cfg_keywords = facturation_keywords, cfg_patterns = facturation_patterns \<rparr>),
     (''technique'', \<lparr> cfg_keywords = technique_keywords, cfg_patterns = technique_patterns \<rparr>),
     (''forfait'', \<lparr> cfg_keywords = forfait_keywords, cfg_patterns = forfait_patterns \<rparr>),
     (''resiliation'', \<lparr> cfg_keywords = resiliation_keywords, cfg_patterns = resiliation_patterns \<rparr>),
     (''livraison'', \<lparr> cfg_keywords = livraison_keywords, cfg_patterns = livraison_patterns \<rparr>),
     (''commande'', \<lparr> cfg_keywords = commande_keywords, cfg_patterns = commande_patterns \<rparr>)]"

definition default_intent :: string where
  "default_intent = ''general''"

text \<open>
  \<open>_calculate_intent_score\<close>. The source also accumulates a variable \<open>score\<close> (the inverse
  word count of each keyword found, 2.0 for each pattern found) that its result never
  reads; the result is the normalised \<open>final_score\<close>.
\<close>

definition calculate_intent_score :: "pystr \<Rightarrow> intent_config \<Rightarrow> rat" where
  "calculate_intent_score message config =
     (let keyword_matches = length (filter (\<lambda>keyword. contains keyword message) (cfg_keywords config));
          keyword_score = (if cfg_keywords config \<noteq> []
                           then of_nat keyword_matches / of_nat (length (cfg_keywords config)) * 0.7
                           else 0.0);
          pattern_matches = length (filter (\<lambda>p. re_search_ignorecase p message) (cfg_patterns config));
          pattern_score = (if cfg_patterns config \<noteq> []
                           then of_nat pattern_matches / of_nat (length (cfg_patterns config)) * 0.3
                           else 0.0);
          final_score = keyword_score + pattern_score;
          boosted = (if length (split_ws message) < 10 \<and> 0 < keyword_matches
                     then final_score * 1.2 else final_score)
      in min boosted 1.0)"

text \<open>
  \<open>max(intent_scores, key=intent_scores.get)\<close>: the first entry, in the dict's order,
  whose score no other entry exceeds.
\<close>

fun max_by_score :: "(string \<times> rat) \<Rightarrow> (string \<times> rat) list \<Rightarrow> string \<times> rat" where
  "max_by_score best [] = best"
| "max_by_score best (x # xs) = max_by_score (if snd best < snd x then x else best) xs"

definition subcategories :: "(string \<times> (string \<times> pystr list) list) list" where
  "subcategories =
    [(''facturation'', facturation_subcategories),
     (''technique'', technique_subcategories),
     (''forfait'', forfait_subcategories)]"

text \<open>The loop of \<open>_detect_subcategory\<close>, carrying \<open>best_subcat\<close> and \<open>best_score\<close>.\<close>

fun best_subcategory :: "pystr \<Rightarrow> string option \<times> nat \<Rightarrow> (string \<times> pystr list) list \<Rightarrow> string option \<times> nat" where
  "best_subcategory message best [] = best"
| "best_subcategory message best ((subcat, kws) # rest) =
     (let score = length (filter (\<lambda>keyword. contains keyword message) kws)
      in best_subcategory message (if snd best < score then (Some subcat, score) else best) rest)"

definition detect_subcategory :: "pystr \<Rightarrow> string \<Rightarrow> string option" where
  "detect_subcategory message intent =
     (case map_of subcategories intent of
        None \<Rightarrow> None
      | Some intent_subcats \<Rightarrow>
          (let (best_subcat, best_score) = best_subcategory message (None, 0) intent_subcats
           in if 0 < best_score then best_subcat else None))"

definition extract_found_keywords :: "pystr \<Rightarrow> string \<Rightarrow> pystr list" where
  "extract_found_keywords message intent =
     (case map_of intent_patterns intent of
        None \<Rightarrow> []
      | Some config \<Rightarrow> filter (\<lambda>keyword. contains keyword message) (cfg_keywords config))"

record intent_result =
  category :: string
  subcategory :: "string option"
  ir_confidence :: rat
  ir_keywords_found :: "pystr list"

text \<open>
  \<open>detect_intent\<close>. \<open>max\<close> raises on an empty dict, and the \<open>except\<close> branch then answers
  the default intent with confidence 0.0; \<open>intent_patterns\<close> is not empty, so that branch
  is never taken, but the model keeps it.
\<close>

definition detect_intent :: "pystr \<Rightarrow> intent_result" where
  "detect_intent message =
     (let message_lower = py_lower message;
          intent_scores = map (\<lambda>(intent, config). (intent, calculate_intent_score message_lower config))
                              intent_patterns
      in case intent_scores of
           [] \<Rightarrow> \<lparr> category = default_intent, subcategory = None, ir_confidence = 0.0,
                  ir_keywords_found = [] \<rparr>
         | first # others \<Rightarrow>
             (let (best_intent, best_score) = max_by_score first others;
                  confidence_threshold = 0.3;
                  (best_intent, best_score) =
                     (if best_score < confidence_threshold then (default_intent, 0.5)
                      else (best_intent, best_score))
              in \<lparr> category = best_intent,
                   subcategory = detect_subcategory message_lower best_intent,
                   ir_confidence = min best_score 1.0,
                   ir_keywords_found = extract_found_keywords message_lower best_intent \<rparr>))"

text \<open>
  The first example that \<open>get_intent_examples\<close> lists for \<open>resiliation\<close>, "Je veux
  r[e acute]silier mon contrat".
\<close>

definition example_resiliation :: pystr where
  "example_resiliation = asc ''Je veux r'' @ [0xE9] @ asc ''silier mon contrat''"

section \<open>Sentiment analyzer (ai-engine/models/sentiment_analyzer.py)\<close>





text \<open>\<open>self.intensifiers\<close>, a dict with the keys \<open>positive\<close> and \<open>negative\<close>.\<close>

definition intensifiers :: "(string \<times> pystr list) list" where
  "intensifiers =
    [(''positive'',
      [asc ''tr'' @ [0xE8] @ asc ''s'', asc ''vraiment'', asc ''extr'' @ [0xEA] @ asc ''mement'',
       asc ''totalement'', asc ''compl'' @ [0xE8] @ asc ''tement'']),
     (''negative'',
      [asc ''tr'' @ [0xE8] @ asc ''s'', asc ''vraiment'', asc ''extr'' @ [0xEA] @ asc ''mement'',
       asc ''totalement'', asc ''compl'' @ [0xE8] @ asc ''tement'', asc ''absolument''])]"



text \<open>
  \<open>len(re.findall(r"(\w+)\s+\1", message))\<close>. Word characters and whitespace are disjoint,
  so a match at the start of \<open>s\<close> is the maximal run of word characters, the maximal run
  of whitespace after it, and the same word again; \<open>repetition_match\<close> gives its length.
  \<open>findall\<close> resumes after a match, and one character further where there is none:
  \<open>count_repetitions_from k s\<close> skips the \<open>k\<close> characters that remain of the last match.
\<close>

definition repetition_match :: "pystr \<Rightarrow> nat option" where
  "repetition_match s =
     (let w = takeWhile isword_cp s;
          after_w = dropWhile isword_cp s;
          sp = takeWhile isspace_cp after_w;
          after_sp = dropWhile isspace_cp after_w
      in if w \<noteq> [] \<and> sp \<noteq> [] \<and> startswith w after_sp
         then Some (length w + length sp + length w) else None)"

fun count_repetitions_from :: "nat \<Rightarrow> pystr \<Rightarrow> nat" where
  "count_repetitions_from k [] = 0"
| "count_repetitions_from k (c # cs) =
     (if 0 < k then count_repetitions_from (k - 1) cs
      else case repetition_match (c # cs) of
             Some n \<Rightarrow> 1 + count_repetitions_from (n - 1) cs
           | None \<Rightarrow> count_repetitions_from 0 cs)"

definition count_repetitions :: "pystr \<Rightarrow> nat" where
  "count_repetitions message = count_repetitions_from 0 message"

text \<open>The loop of \<open>_apply_modifiers\<close> over the intensifiers.\<close>

fun apply_intensifiers :: "pystr \<Rightarrow> rat \<Rightarrow> pystr list \<Rightarrow> rat" where
  "apply_intensifiers message score [] = score"
| "apply_intensifiers message score (intensifier # rest) =
     apply_intensifiers message (if contains intensifier message then score * 1.5 else score) rest"

text \<open>\<open>self.intensifiers.get(sentiment_type, [])\<close>\<close>

definition intensifiers_for :: "string \<Rightarrow> pystr list" where
  "intensifiers_for sentiment_type =
     (case map_of intensifiers sentiment_type of None \<Rightarrow> [] | Some l \<Rightarrow> l)"

definition apply_modifiers :: "pystr \<Rightarrow> rat \<Rightarrow> string \<Rightarrow> rat" where
  "apply_modifiers message score sentiment_type =
     (let score = apply_intensifiers message score (intensifiers_for sentiment_type);
          repetitions = count_repetitions message
      in if 0 < repetitions then score * (1 + of_nat repetitions * 0.3) else score)"










section \<open>Vector store (ai-engine/rag/vector_store.py)\<close>

text \<open>
  The three parallel lists of the store. Embeddings and similarities are floating-point
  numbers in the source; the model computes with rationals. A metadata dict is a map
  whose \<open>None\<close> stands for the answer of \<open>dict.get\<close> on a missing key.
\<close>

record 'v vector_store =
  documents :: "pystr list"
  embeddings :: "rat list list"
  metadata :: "(pystr \<Rightarrow> 'v option) list"

record rag_settings =
  RAG_TOP_K :: int
  RAG_SIMILARITY_THRESHOLD :: rat

record 'v search_hit =
  hit_content :: pystr
  hit_metadata :: "pystr \<Rightarrow> 'v option"
  hit_distance :: rat
  hit_similarity :: rat

definition dot :: "rat list \<Rightarrow> rat list \<Rightarrow> rat" where
  "dot u v = sum_list (map (\<lambda>(a, b). a * b) (zip u v))"

text \<open>\<open>xs[:k]\<close>, where a negative \<open>k\<close> counts from the end.\<close>

definition slice_to :: "'a list \<Rightarrow> int \<Rightarrow> 'a list" where
  "slice_to xs k = (if 0 \<le> k then take (nat k) xs else take (nat (int (length xs) + k)) xs)"

text \<open>
  \<open>np.argsort(similarities)[::-1]\<close>: the indices by similarity, largest first. The order
  of equal similarities is the reverse of a stable sort here; the source leaves it to
  the sorting routine.
\<close>

definition argsort_desc :: "rat list \<Rightarrow> nat list" where
  "argsort_desc sims = rev (sort_key (\<lambda>i. sims ! i) [0..<length sims])"

text \<open>
  The loop of \<open>search\<close> over the selected indices. \<open>None\<close> is a raised \<open>IndexError\<close>, when
  the lists of the store differ in length; \<open>search\<close> catches it and answers the empty
  list. An empty filter dict is falsy and filters nothing.
\<close>

fun collect_hits :: "'v vector_store \<Rightarrow> rat \<Rightarrow> rat list \<Rightarrow> (pystr \<times> 'v option) list \<Rightarrow> nat list \<Rightarrow> 'v search_hit list \<Rightarrow> 'v search_hit list option" where
  "collect_hits self threshold sims filter_metadata [] results = Some results"
| "collect_hits self threshold sims filter_metadata (idx # rest) results =
     (let similarity = sims ! idx
      in if threshold \<le> similarity
         then (if filter_metadata \<noteq> [] \<and> \<not> idx < length (metadata self) then None
               else if filter_metadata \<noteq> []
                       \<and> \<not> (\<forall>(k, v) \<in> set filter_metadata. (metadata self ! idx) k = v)
               then collect_hits self threshold sims filter_metadata rest results
               else if \<not> idx < length (documents self) \<or> \<not> idx < length (metadata self) then None
               else collect_hits self threshold sims filter_metadata rest
                      (results @ [\<lparr> hit_content = documents self ! idx,
                                    hit_metadata = metadata self ! idx,
                                    hit_distance = 1 - similarity,
                                    hit_similarity = similarity \<rparr>]))
         else collect_hits self threshold sims filter_metadata rest results)"

text \<open>
  \<open>search\<close>. \<open>encode\<close> is the embedding model applied to one text. The matrix product
  raises unless every stored embedding has the length of the query embedding, and the
  \<open>except\<close> branch answers the empty list. The embedding model is always set after
  \<open>__init__\<close>, which raises otherwise.
\<close>

definition search :: "rag_settings \<Rightarrow> (pystr \<Rightarrow> rat list) \<Rightarrow> 'v vector_store \<Rightarrow> pystr \<Rightarrow> int option \<Rightarrow> (pystr \<times> 'v option) list \<Rightarrow> 'v search_hit list" where
  "search settings encode self query top_k filter_metadata =
     (if documents self = [] then []
      else
        (let top_k = (case top_k of None \<Rightarrow> RAG_TOP_K settings | Some k \<Rightarrow> k);
             query_embedding = encode query
         in if \<not> (\<forall>e \<in> set (embeddings self). length e = length query_embedding) then []
            else
              (let similarities = map (dot query_embedding) (embeddings self);
                   indices = argsort_desc similarities
               in case collect_hits self (RAG_SIMILARITY_THRESHOLD settings) similarities
                         filter_metadata (slice_to indices top_k) [] of
                    None \<Rightarrow> []
                  | Some results \<Rightarrow> results)))"

section \<open>Link generator (social-monitor/processors/link_generator.py)\<close>

text \<open>
  Times are microseconds of the local clock, as integers; every \<open>datetime.now()\<close> of the
  source is an input of the model.
\<close>

definition hours :: "int \<Rightarrow> int" where
  "hours h = h * 3600 * 1000000"

definition seconds :: "int \<Rightarrow> int" where
  "seconds n = n * 1000000"

definition hour_of :: "int \<Rightarrow> int" where
  "hour_of t = (t div hours 1) mod 24"

record link_generator =
  base_url :: pystr
  link_expiry_hours :: int

text \<open>The \<open>context\<close> argument, a dict read with \<open>get\<close> and a default.\<close>

record link_context =
  ctx_content :: "pystr option"
  ctx_complaint_type :: "string option"
  ctx_urgency :: "string option"

record context_data =
  cd_mastodon_user :: pystr
  cd_post_id :: pystr
  original_content :: pystr
  cd_complaint_type :: string
  cd_urgency :: string
  created_at :: int
  expires_at :: int
  used :: bool
  response_sent :: bool

record link_data =
  token :: "pystr option"
  url :: "pystr option"
  link_ctx :: "context_data option"
  expires_in_hours :: int

text \<open>
  \<open>_generate_unique_token\<close>: the first 16 characters of the hexadecimal SHA-256 digest of
  user, post, time and a random UUID. The digest is an input of the model.
\<close>

definition generate_unique_token :: "pystr \<Rightarrow> pystr" where
  "generate_unique_token digest = take 16 digest"

text \<open>
  \<open>generate_contact_link\<close>, with the digest and its two clock readings. Nothing in the body
  raises, so the \<open>except\<close> branch, which answers a link without token, is not modelled.
\<close>

definition generate_contact_link :: "link_generator \<Rightarrow> pystr \<Rightarrow> pystr \<Rightarrow> link_context \<Rightarrow> pystr \<Rightarrow> int \<Rightarrow> int \<Rightarrow> link_data" where
  "generate_contact_link self mastodon_user post_id ctx digest now1 now2 =
     (let tok = generate_unique_token digest;
          contact_url = base_url self @ asc ''/?token='' @ tok @ asc ''&source=mastodon'';
          data = \<lparr> cd_mastodon_user = mastodon_user, cd_post_id = post_id,
                   original_content = (case ctx_content ctx of None \<Rightarrow> [] | Some c \<Rightarrow> c),
                   cd_complaint_type = (case ctx_complaint_type ctx of None \<Rightarrow> ''general'' | Some t \<Rightarrow> t),
                   cd_urgency = (case ctx_urgency ctx of None \<Rightarrow> ''medium'' | Some u \<Rightarrow> u),
                   created_at = now1,
                   expires_at = now2 + hours (link_expiry_hours self),
                   used = False, response_sent = False \<rparr>
      in \<lparr> token = Some tok, url = Some contact_url, link_ctx = Some data,
           expires_in_hours = link_expiry_hours self \<rparr>)"

text \<open>
  \<open>int(token, 16)\<close> succeeds or raises \<open>ValueError\<close>. It accepts whitespace around the
  number (the whitespace of \<open>str.isspace\<close> but for the separators U+001C to U+001F), one
  sign, the prefix \<open>0x\<close> or \<open>0X\<close> with one underscore after it, and hexadecimal digits with
  single underscores between them. Decimal digits of other scripts, which \<open>int\<close> also
  reads, lie outside the tabulated characters.
\<close>

definition int_space_cp :: "int \<Rightarrow> bool" where
  "int_space_cp c \<longleftrightarrow> isspace_cp c \<and> \<not> (0x1C \<le> c \<and> c \<le> 0x1F)"

definition is_hex_digit :: "int \<Rightarrow> bool" where
  "is_hex_digit c \<longleftrightarrow> (0x30 \<le> c \<and> c \<le> 0x39) \<or> (0x41 \<le> c \<and> c \<le> 0x46) \<or> (0x61 \<le> c \<and> c \<le> 0x66)"

fun no_double_underscore :: "pystr \<Rightarrow> bool" where
  "no_double_underscore (a # b # cs) = (\<not> (a = 0x5F \<and> b = 0x5F) \<and> no_double_underscore (b # cs))"
| "no_double_underscore cs = True"

definition int_base16_ok :: "pystr \<Rightarrow> bool" where
  "int_base16_ok s =
     (let s1 = dropWhile int_space_cp s;
          s2 = (case s1 of c # cs \<Rightarrow> if c = 0x2B \<or> c = 0x2D then cs else s1 | [] \<Rightarrow> s1);
          s3 = (case s2 of a # b # cs \<Rightarrow>
                  if a = 0x30 \<and> (b = 0x78 \<or> b = 0x58)
                  then (case cs of u # us \<Rightarrow> if u = 0x5F then us else cs | [] \<Rightarrow> cs)
                  else s2
                | _ \<Rightarrow> s2);
          body = takeWhile (\<lambda>c. is_hex_digit c \<or> c = 0x5F) s3;
          rest = dropWhile (\<lambda>c. is_hex_digit c \<or> c = 0x5F) s3
      in body \<noteq> [] \<and> hd body \<noteq> 0x5F \<and> last body \<noteq> 0x5F \<and> no_double_underscore body
         \<and> (\<forall>c \<in> set rest. int_space_cp c))"

text \<open>\<open>validate_token\<close> reads its argument only; it has no access to a link's context.\<close>

definition validate_token :: "link_generator \<Rightarrow> pystr \<Rightarrow> bool" where
  "validate_token self tok = (if tok = [] \<or> length tok \<noteq> 16 then False else int_base16_ok tok)"

text \<open>What SHA-256's \<open>hexdigest()\<close> returns: 64 digits from \<open>0\<close> to \<open>9\<close> and \<open>a\<close> to \<open>f\<close>.\<close>

definition is_hexdigest :: "pystr \<Rightarrow> bool" where
  "is_hexdigest d \<longleftrightarrow> length d = 64 \<and> (\<forall>c \<in> set d. (0x30 \<le> c \<and> c \<le> 0x39) \<or> (0x61 \<le> c \<and> c \<le> 0x66))"

section \<open>Settings of the social monitor (social-monitor/config/mastodon_config.py)\<close>

text \<open>The settings read from the environment, as far as the responder and the collector use them.\<close>

record monitor_settings =
  FRONTEND_URL :: pystr
  MONITOR_HASHTAGS :: "pystr list"
  AUTO_RESPOND :: bool
  RESPONSE_DELAY :: int
  MAX_RESPONSES_PER_HOUR :: int

definition MONITOR_KEYWORDS :: "pystr list" where
  "MONITOR_KEYWORDS =
    [asc ''free mobile'', asc ''freemobile'', asc ''free mobile'', asc ''free-mobile'',
     asc ''sav free'', asc ''support free'', asc ''aide free'',
     asc ''probl'' @ [0xE8] @ asc ''me free'', asc ''facture free'', asc ''forfait free'',
     asc ''r'' @ [0xE9] @ asc ''siliation free'']"

text \<open>\<open>s.strip()\<close>\<close>

definition py_strip :: "pystr \<Rightarrow> pystr" where
  "py_strip s = rev (dropWhile isspace_cp (rev (dropWhile isspace_cp s)))"

definition get_hashtags_for_search :: "monitor_settings \<Rightarrow> pystr list" where
  "get_hashtags_for_search settings =
     map (\<lambda>tag. asc ''#'' @ py_strip tag) (filter (\<lambda>tag. py_strip tag \<noteq> []) (MONITOR_HASHTAGS settings))"

definition get_keywords_for_search :: "pystr list" where
  "get_keywords_for_search = map py_lower MONITOR_KEYWORDS"

text \<open>The defaults of the settings.\<close>

definition default_settings :: monitor_settings where
  "default_settings =
     \<lparr> FRONTEND_URL = asc ''http://localhost:8501'',
       MONITOR_HASHTAGS = [asc ''Free'', asc ''FreeMobile'', asc ''SAVFree''],
       AUTO_RESPOND = True, RESPONSE_DELAY = 30, MAX_RESPONSES_PER_HOUR = 10 \<rparr>"

section \<open>Automatic responder (social-monitor/responders/auto_responder.py)\<close>

text \<open>
  A post, by the keys the monitor reads: \<open>id\<close>, \<open>content\<close>, \<open>account.username\<close>, \<open>url\<close> and
  \<open>created_at\<close> (\<open>None\<close> when it is missing or cannot be parsed).
\<close>

record post =
  p_id :: pystr
  p_content :: pystr
  p_username :: pystr
  p_url :: pystr
  p_created_at :: "int option"

text \<open>The answer of the Mastodon client to \<open>status_post\<close>.\<close>

record response =
  resp_id :: pystr
  resp_url :: pystr

record history_entry =
  h_timestamp :: int
  h_post_id :: pystr
  h_content :: pystr
  h_username :: pystr
  h_url :: pystr
  h_response_id :: pystr
  h_response_url :: pystr
  h_link_token :: "pystr option"
  h_complaint_type :: string
  h_urgency :: string

record auto_responder =
  link_generator_of :: link_generator
  response_count :: int
  last_response_time :: "int option"
  response_history :: "history_entry list"

text \<open>\<open>AutoResponder.__init__\<close>\<close>

definition new_responder :: "monitor_settings \<Rightarrow> auto_responder" where
  "new_responder settings =
     \<lparr> link_generator_of = \<lparr> base_url = FRONTEND_URL settings, link_expiry_hours = 24 \<rparr>,
       response_count = 0, last_response_time = None, response_history = [] \<rparr>"

text \<open>
  What one call of \<open>process_post\<close> takes from outside: the clock at each \<open>datetime.now()\<close>,
  the SHA-256 digest behind the token, and the answer of the Mastodon client
  (\<open>None\<close> when the call raises or answers nothing).
\<close>

record send_env =
  now_check :: int
  digest :: pystr
  now_created :: int
  now_expires :: int
  send_result :: "response option"
  now_update1 :: int
  now_update2 :: int
  now_history :: int
  now_sent :: int

text \<open>\<open>_can_respond\<close>, with the clock as its second argument.\<close>

definition can_respond :: "monitor_settings \<Rightarrow> auto_responder \<Rightarrow> int \<Rightarrow> bool" where
  "can_respond settings self now =
     (if MAX_RESPONSES_PER_HOUR settings \<le> response_count self then False
      else case last_response_time self of
             None \<Rightarrow> True
           | Some last_time \<Rightarrow> if now - last_time < seconds (RESPONSE_DELAY settings) then False else True)"

text \<open>
  \<open>_update_response_stats\<close>. The source reads the clock twice: \<open>now1\<close> is stored as the
  time of the last response, and its hour is compared with the hour of \<open>now2\<close>.
\<close>

definition update_response_stats :: "auto_responder \<Rightarrow> int \<Rightarrow> int \<Rightarrow> auto_responder" where
  "update_response_stats self now1 now2 =
     (let self = self\<lparr> response_count := response_count self + 1 \<rparr>;
          self = self\<lparr> last_response_time := Some now1 \<rparr>
      in if hour_of now1 \<noteq> hour_of now2 then self\<lparr> response_count := 0 \<rparr> else self)"

definition save_response_history :: "auto_responder \<Rightarrow> post \<Rightarrow> response \<Rightarrow> link_data \<Rightarrow> context_data \<Rightarrow> int \<Rightarrow> auto_responder" where
  "save_response_history self post resp link data now =
     (let history_entry =
            \<lparr> h_timestamp = now, h_post_id = p_id post,
              h_content = take 100 (p_content post) @ asc ''...'',
              h_username = p_username post, h_url = p_url post,
              h_response_id = resp_id resp, h_response_url = resp_url resp,
              h_link_token = token link,
              h_complaint_type = cd_complaint_type data, h_urgency = cd_urgency data \<rparr>;
          history = response_history self @ [history_entry]
      in self\<lparr> response_history :=
                 (if 1000 < length history then drop (length history - 500) history else history) \<rparr>)"

definition clear_response_history :: "auto_responder \<Rightarrow> auto_responder" where
  "clear_response_history self =
     self\<lparr> response_history := [], response_count := 0, last_response_time := None \<rparr>"

record post_result =
  pr_post_id :: pystr
  pr_response_id :: pystr
  pr_link_token :: pystr
  pr_complaint_type :: string
  pr_urgency :: string
  pr_sent_at :: int

text \<open>
  \<open>process_post\<close> answers a result or \<open>None\<close> and leaves the responder in a new state. The
  text of the reply goes to the Mastodon client and is not modelled; the client's answer
  is \<open>send_result\<close>.
\<close>

definition process_post :: "monitor_settings \<Rightarrow> auto_responder \<Rightarrow> post \<Rightarrow> send_env \<Rightarrow> post_result option \<times> auto_responder" where
  "process_post settings self post env =
     (if \<not> can_respond settings self (now_check env) then (None, self)
      else
        (let complaint_result = detect_complaint (p_content post)
         in if \<not> is_complaint complaint_result then (None, self)
            else
              (let ctx = \<lparr> ctx_content = Some (p_content post),
                           ctx_complaint_type = Some (cr_type complaint_result),
                           ctx_urgency = Some (cr_urgency complaint_result) \<rparr>;
                   link = generate_contact_link (link_generator_of self) (p_username post) (p_id post)
                            ctx (digest env) (now_created env) (now_expires env)
               in case (token link, link_ctx link) of
                    (Some tok, Some data) \<Rightarrow>
                      (if tok = [] then (None, self)
                       else case send_result env of
                              None \<Rightarrow> (None, self)
                            | Some resp \<Rightarrow>
                                (let self = update_response_stats self (now_update1 env) (now_update2 env);
                                     self = save_response_history self post resp link data (now_history env)
                                 in (Some \<lparr> pr_post_id = p_id post, pr_response_id = resp_id resp,
                                            pr_link_token = tok,
                                            pr_complaint_type = cr_type complaint_result,
                                            pr_urgency = cr_urgency complaint_result,
                                            pr_sent_at = now_sent env \<rparr>, self)))
                  | _ \<Rightarrow> (None, self))))"

text \<open>A responder's life: posts handed to \<open>process_post\<close> one after the other.\<close>

fun run_posts :: "monitor_settings \<Rightarrow> auto_responder \<Rightarrow> (post \<times> send_env) list \<Rightarrow> auto_responder" where
  "run_posts settings self [] = self"
| "run_posts settings self ((post, env) # rest) =
     run_posts settings (snd (process_post settings self post env)) rest"

section \<open>Collector (social-monitor/collectors/mastodon_collector.py)\<close>

record collector_stats =
  total_posts_processed :: int
  complaints_detected :: int
  responses_sent :: int

record collector =
  processed_posts :: "pystr set"
  stats :: collector_stats
  auto_responder_of :: auto_responder

definition new_collector :: "monitor_settings \<Rightarrow> collector" where
  "new_collector settings =
     \<lparr> processed_posts = {},
       stats = \<lparr> total_posts_processed = 0, complaints_detected = 0, responses_sent = 0 \<rparr>,
       auto_responder_of = new_responder settings \<rparr>"

definition is_recent_post :: "post \<Rightarrow> int \<Rightarrow> bool" where
  "is_recent_post post now =
     (case p_created_at post of None \<Rightarrow> False | Some created \<Rightarrow> now - created < seconds 86400)"

definition is_free_mobile_related :: "monitor_settings \<Rightarrow> post \<Rightarrow> bool" where
  "is_free_mobile_related settings post =
     (let content = py_lower (p_content post)
      in (\<exists>keyword \<in> set get_keywords_for_search. contains keyword content)
         \<or> (\<exists>hashtag \<in> set (get_hashtags_for_search settings). contains (py_lower hashtag) content))"

text \<open>
  \<open>_process_single_post\<close>: the post is triaged by \<open>detect_complaint\<close>; a complaint is counted
  and, when \<open>AUTO_RESPOND\<close> is set, handed to the responder. Saving to the database only
  writes a log line.
\<close>

definition process_single_post :: "monitor_settings \<Rightarrow> collector \<Rightarrow> post \<Rightarrow> send_env \<Rightarrow> collector" where
  "process_single_post settings self post env =
     (let complaint_result = detect_complaint (p_content post)
      in if is_complaint complaint_result
         then
           (let self = self\<lparr> stats := (stats self)\<lparr> complaints_detected := complaints_detected (stats self) + 1 \<rparr> \<rparr>
            in if AUTO_RESPOND settings
               then
                 (let (response_result, responder) = process_post settings (auto_responder_of self) post env;
                      self = self\<lparr> auto_responder_of := responder \<rparr>
                  in if response_result \<noteq> None
                     then self\<lparr> stats := (stats self)\<lparr> responses_sent := responses_sent (stats self) + 1 \<rparr> \<rparr>
                     else self)
               else self)
         else self)"

text \<open>
  The body of the loop of \<open>_process_posts\<close> for one post; \<open>now\<close> is the clock of
  \<open>_is_recent_post\<close>. Each of the first three tests ends the iteration by \<open>continue\<close>.
\<close>

definition process_one :: "monitor_settings \<Rightarrow> collector \<Rightarrow> post \<Rightarrow> int \<Rightarrow> send_env \<Rightarrow> collector" where
  "process_one settings self post now env =
     (let post_id = p_id post
      in if post_id \<in> processed_posts self then self
         else if \<not> is_recent_post post now then self
         else if \<not> is_free_mobile_related settings post then self
         else
           (let self = process_single_post settings self post env;
                self = self\<lparr> processed_posts := insert post_id (processed_posts self) \<rparr>
            in self\<lparr> stats := (stats self)\<lparr> total_posts_processed := total_posts_processed (stats self) + 1 \<rparr> \<rparr>))"

fun process_posts :: "monitor_settings \<Rightarrow> collector \<Rightarrow> (post \<times> int \<times> send_env) list \<Rightarrow> collector" where
  "process_posts settings self [] = self"
| "process_posts settings self ((post, now, env) # posts) =
     process_posts settings (process_one settings self post now env) posts"

definition clear_processed_posts :: "collector \<Rightarrow> collector" where
  "clear_processed_posts self = self\<lparr> processed_posts := {} \<rparr>"

section \<open>Example inputs\<close>

text \<open>"tr[e grave]s vraiment bien", with two intensifiers of the positive list.\<close>

definition two_intensifiers :: pystr where
  "two_intensifiers = asc ''tr'' @ [0xE8] @ asc ''s vraiment bien''"


text \<open>A store of three documents with two-dimensional embeddings, and its settings.\<close>

definition example_store :: "pystr vector_store" where
  "example_store =
     \<lparr> documents = [asc ''forfait'', asc ''facture'', asc ''sim''],
       embeddings = [[1, 0], [0.8, 0.6], [0, 1]],
       metadata = [(\<lambda>k. None), (\<lambda>k. None), (\<lambda>k. None)] \<rparr>"

definition example_rag_settings :: rag_settings where
  "example_rag_settings = \<lparr> RAG_TOP_K = 5, RAG_SIMILARITY_THRESHOLD = 0.7 \<rparr>"

text \<open>A digest, the generator of the default settings, and the link issued from them.\<close>

definition example_digest :: pystr where
  "example_digest = asc ''9f86d081884c7d659a2feaa0c55ad015a3bf4f1b2b0b822cd15d6c15b0f00a08''"

definition example_generator :: link_generator where
  "example_generator = \<lparr> base_url = asc ''http://localhost:8501'', link_expiry_hours = 24 \<rparr>"

definition example_link :: link_data where
  "example_link =
     generate_contact_link example_generator (asc ''alice'') (asc ''42'')
       \<lparr> ctx_content = Some example_complaint, ctx_complaint_type = Some ''general'',
         ctx_urgency = Some ''high'' \<rparr>
       example_digest 0 0"

text \<open>
  A complaint post, the outside of one call of \<open>process_post\<close> with every clock reading at
  \<open>t\<close> and a reply that the client accepts, and settings with a cap of two responses.
\<close>

definition example_post :: post where
  "example_post =
     \<lparr> p_id = asc ''101'', p_content = example_complaint, p_username = asc ''alice'',
       p_url = asc ''https://mastodon.social/@alice/101'', p_created_at = Some 0 \<rparr>"

definition example_env :: "int \<Rightarrow> send_env" where
  "example_env t =
     \<lparr> now_check = t, digest = example_digest, now_created = t, now_expires = t,
       send_result = Some \<lparr> resp_id = asc ''202'', resp_url = asc ''https://mastodon.social/@free/202'' \<rparr>,
       now_update1 = t, now_update2 = t, now_history = t, now_sent = t \<rparr>"

definition capped_settings :: monitor_settings where
  "capped_settings = default_settings\<lparr> MAX_RESPONSES_PER_HOUR := 2 \<rparr>"

text \<open>The responder after two replies, sent at 0 s and at 60 s.\<close>

definition capped_responder :: auto_responder where
  "capped_responder =
     run_posts capped_settings (new_responder capped_settings)
       [(example_post, example_env 0), (example_post, example_env (seconds 60))]"

text \<open>The responder after two replies two hours apart, sent at 0 h and at 2 h.\<close>

definition spaced_responder :: auto_responder where
  "spaced_responder =
     run_posts capped_settings (new_responder capped_settings)
       [(example_post, example_env 0), (example_post, example_env (hours 2))]"

text \<open>The collector after one poll that brought the example post, ten seconds after it was written.\<close>

definition processed_collector :: collector where
  "processed_collector =
     process_posts default_settings (new_collector default_settings)
       [(example_post, seconds 10, example_env (seconds 10))]"

section \<open>Properties of the complaint detector\<close>

lemma calculate_urgency_not_low:
  "3 \<le> score \<Longrightarrow> calculate_urgency score e k p \<in> {''medium'', ''high'', ''urgent''}"
proof -
  assume s: "3 \<le> score"
  have "0 \<le> (of_nat e :: rat) * 0.5" "0 \<le> (of_nat k :: rat) * 0.3" "0 \<le> (of_nat p :: rat) * 0.5"
    by simp_all
  with s have "3 \<le> score + of_nat e * 0.5 + of_nat k * 0.3 + of_nat p * 0.5"
    by linarith
  then show ?thesis
    by (simp add: calculate_urgency_def Let_def)
qed

text \<open>
  Claim C9. Whenever \<open>detect_complaint\<close> reports \<open>is_complaint = true\<close>, the urgency it
  reports is never \<open>low\<close>: it is \<open>medium\<close>, \<open>high\<close> or \<open>urgent\<close>. The urgency score is the
  complaint score plus terms that are not negative, and the complaint threshold 3.0 is
  the threshold of \<open>medium\<close>.
\<close>

theorem complaint_urgency_at_least_medium:
  "is_complaint (detect_complaint content) \<Longrightarrow>
   cr_urgency (detect_complaint content) \<in> {''medium'', ''high'', ''urgent''}"
  using calculate_urgency_not_low
  by (simp add: detect_complaint_def Let_def)

theorem complaint_urgency_at_least_medium_witness:
  "is_complaint (detect_complaint example_complaint) \<and>
   cr_urgency (detect_complaint example_complaint) \<in> {''medium'', ''high'', ''urgent''}"
proof -
  have h: "is_complaint (detect_complaint example_complaint)"
    by code_simp
  from complaint_urgency_at_least_medium [OF h] h show ?thesis
    by simp
qed

text \<open>
  Claim C5. Triaging "Free Mobile c'est nul, [c cedilla]a marche jamais !", the text of
  \<open>example_complaint\<close>, should give a complaint of type \<open>technical\<close>, as the claim and the
  detector's own example list say. The detector does find a complaint (score 5.7,
  urgency \<open>high\<close>), but none of the billing, technical, service or cancellation keywords
  occurs in the text, so the type it returns is \<open>general\<close>.
\<close>

theorem example_complaint_type_general:
  "is_complaint (detect_complaint example_complaint) \<and>
   complaint_score (detect_complaint example_complaint) = 5.7 \<and>
   cr_urgency (detect_complaint example_complaint) = ''high'' \<and>
   cr_type (detect_complaint example_complaint) = ''general''"
  by code_simp

section \<open>Properties of the intent detector\<close>

text \<open>
  Claim C6. Classifying "Je veux r[e acute]silier mon contrat", the text of
  \<open>example_resiliation\<close>, should give the cancellation category (\<open>resiliation\<close> in the
  source), as the claim and the detector's own example list say. The message matches one
  keyword of fifteen and one pattern of five, so its normalised score, with the boost
  for short messages, is 0.128. That is the highest of the six scores but lies under the
  floor 0.3, and \<open>detect_intent\<close> answers \<open>general\<close> with confidence 0.5.
\<close>

theorem example_resiliation_general:
  "calculate_intent_score (py_lower example_resiliation)
     \<lparr> cfg_keywords = resiliation_keywords, cfg_patterns = resiliation_patterns \<rparr> = 0.128 \<and>
   category (detect_intent example_resiliation) = ''general'' \<and>
   ir_confidence (detect_intent example_resiliation) = 0.5"
  by code_simp

section \<open>Properties of the sentiment analyzer\<close>

lemma apply_intensifiers_power:
  "apply_intensifiers message score its
     = score * 1.5 ^ length (filter (\<lambda>w. contains w message) its)"
  by (induction its arbitrary: score) simp_all

lemma distinct_intensifiers_for: "distinct (intensifiers_for t)"
proof -
  have "map_of intensifiers t = None \<or> map_of intensifiers t = Some (intensifiers_for ''positive'')
        \<or> map_of intensifiers t = Some (intensifiers_for ''negative'')"
    by (simp add: intensifiers_def intensifiers_for_def)
  moreover have "distinct (intensifiers_for ''positive'')" by code_simp
  moreover have "distinct (intensifiers_for ''negative'')" by code_simp
  ultimately show ?thesis
    by (auto simp: intensifiers_for_def)
qed

text \<open>
  Claim C7, as amended. The loop over the intensifiers multiplies the score by 1.5 once
  for every word of the polarity's intensifier list that occurs in the message: the test
  is the presence of that word, so a word that occurs several times counts once, and
  \<open>k\<close> different intensifier words give the factor \<open>1.5 ^ k\<close>. The factor for repeated
  adjacent words, \<open>1 + 0.3 * repetitions\<close>, is applied after it.
\<close>

theorem apply_modifiers_factor:
  "apply_modifiers message score t
     = score * 1.5 ^ card {w \<in> set (intensifiers_for t). contains w message}
       * (if 0 < count_repetitions message then 1 + of_nat (count_repetitions message) * 0.3 else 1)"
proof -
  have "length (filter (\<lambda>w. contains w message) (intensifiers_for t))
          = card {w \<in> set (intensifiers_for t). contains w message}"
    using distinct_intensifiers_for [of t]
    by (simp add: distinct_length_filter Int_def conj_commute)
  then show ?thesis
    by (simp add: apply_modifiers_def Let_def apply_intensifiers_power)
qed

text \<open>
  The claim as first stated, with one multiplication by 1.5 however many intensifier
  words occur, fails on "tr[e grave]s vraiment bien": no word is repeated, and the score 4 becomes
  9, not 6.
\<close>

theorem two_intensifiers_twice:
  "count_repetitions two_intensifiers = 0 \<and>
   apply_modifiers two_intensifiers 4 ''positive'' = 4 * 1.5 * 1.5 \<and>
   apply_modifiers two_intensifiers 4 ''positive'' \<noteq> 4 * 1.5"
  by code_simp

section \<open>Letter case\<close>




















section \<open>Properties of the vector store\<close>

lemma collect_hits_threshold:
  "collect_hits self threshold sims flt idxs acc = Some res \<Longrightarrow>
   \<forall>h \<in> set acc. threshold \<le> hit_similarity h \<Longrightarrow>
   \<forall>h \<in> set res. threshold \<le> hit_similarity h"
proof (induction idxs arbitrary: acc)
  case Nil
  then show ?case by simp
next
  case (Cons idx rest)
  show ?case
  proof (cases "threshold \<le> sims ! idx")
    case False
    with Cons show ?thesis by (simp add: Let_def)
  next
    case True
    let ?hit = "\<lparr> hit_content = documents self ! idx, hit_metadata = metadata self ! idx,
                   hit_distance = 1 - sims ! idx, hit_similarity = sims ! idx \<rparr>"
    from Cons.prems(1) True
    have "collect_hits self threshold sims flt rest acc = Some res
          \<or> collect_hits self threshold sims flt rest (acc @ [?hit]) = Some res"
      by (simp add: Let_def split: if_splits)
    moreover have "\<forall>h \<in> set (acc @ [?hit]). threshold \<le> hit_similarity h"
      using Cons.prems(2) True by simp
    ultimately show ?thesis
      using Cons.IH Cons.prems(2) by blast
  qed
qed

text \<open>
  Claim C8. Every hit that \<open>search\<close> returns has a similarity of at least the configured
  threshold, whatever the query and the store; and on a store without documents \<open>search\<close>
  returns the empty list.
\<close>

theorem search_threshold:
  "(\<forall>h \<in> set (search settings encode self query top_k flt).
       RAG_SIMILARITY_THRESHOLD settings \<le> hit_similarity h)
   \<and> search settings encode (self\<lparr> documents := [] \<rparr>) query top_k flt = []"
proof -
  have key: "\<forall>h \<in> set (case collect_hits self (RAG_SIMILARITY_THRESHOLD settings) sims flt idxs [] of
                            None \<Rightarrow> [] | Some results \<Rightarrow> results).
               RAG_SIMILARITY_THRESHOLD settings \<le> hit_similarity h" for sims idxs
  proof (cases "collect_hits self (RAG_SIMILARITY_THRESHOLD settings) sims flt idxs []")
    case None
    then show ?thesis by simp
  next
    case (Some res)
    with collect_hits_threshold [OF Some] show ?thesis by simp
  qed
  show ?thesis
    unfolding search_def Let_def using key by simp
qed

theorem search_threshold_witness:
  "map hit_content (search example_rag_settings (\<lambda>q. [1, 0]) example_store (asc ''forfait'') None [])
     = [asc ''forfait'', asc ''facture'']
   \<and> list_all (\<lambda>h. RAG_SIMILARITY_THRESHOLD example_rag_settings \<le> hit_similarity h)
        (search example_rag_settings (\<lambda>q. [1, 0]) example_store (asc ''forfait'') None [])"
proof -
  have "map hit_content (search example_rag_settings (\<lambda>q. [1, 0]) example_store (asc ''forfait'') None [])
     = [asc ''forfait'', asc ''facture'']"
    by code_simp
  then show ?thesis
    using search_threshold [of example_rag_settings "\<lambda>q. [1, 0]" example_store "asc ''forfait''" None "[]"]
    by (simp add: list_all_iff)
qed

section \<open>Properties of the link generator\<close>

lemma no_double_underscore_free: "0x5F \<notin> set s \<Longrightarrow> no_double_underscore s"
  by (induction s rule: no_double_underscore.induct) auto

lemma lowhex_is_hex_digit:
  "(0x30 \<le> c \<and> c \<le> 0x39) \<or> (0x61 \<le> c \<and> c \<le> 0x66) \<Longrightarrow> is_hex_digit c \<and> c \<noteq> 0x5F"
  by (auto simp: is_hex_digit_def)

lemma lowhex_not_space:
  "(0x30 \<le> c \<and> c \<le> 0x39) \<or> (0x61 \<le> c \<and> c \<le> 0x66) \<Longrightarrow> \<not> int_space_cp c"
  by (auto simp: int_space_cp_def isspace_cp_def)

lemma hex_string_parses:
  assumes ne: "s \<noteq> []"
    and hex: "\<forall>c \<in> set s. (0x30 \<le> c \<and> c \<le> 0x39) \<or> (0x61 \<le> c \<and> c \<le> 0x66)"
  shows "int_base16_ok s"
proof -
  from ne obtain a cs where s: "s = a # cs" by (cases s) auto
  have a: "(0x30 \<le> a \<and> a \<le> 0x39) \<or> (0x61 \<le> a \<and> a \<le> 0x66)"
    using hex s by simp
  have all: "\<forall>c \<in> set s. is_hex_digit c \<or> c = 0x5F"
    using hex lowhex_is_hex_digit by blast
  have nu: "0x5F \<notin> set s"
    using hex lowhex_is_hex_digit by blast
  have s1: "dropWhile int_space_cp s = s"
    using lowhex_not_space [OF a] s by simp
  have s2: "(case s of c # cs \<Rightarrow> if c = 0x2B \<or> c = 0x2D then cs else s | [] \<Rightarrow> s) = s"
    using a s by auto
  have s3: "(case s of a # b # cs \<Rightarrow>
               if a = 0x30 \<and> (b = 0x78 \<or> b = 0x58)
               then (case cs of u # us \<Rightarrow> if u = 0x5F then us else cs | [] \<Rightarrow> cs)
               else s
             | _ \<Rightarrow> s) = s"
  proof (cases cs)
    case Nil
    with s show ?thesis by simp
  next
    case (Cons b ds)
    then have "(0x30 \<le> b \<and> b \<le> 0x39) \<or> (0x61 \<le> b \<and> b \<le> 0x66)"
      using hex s by simp
    then have "b \<noteq> 0x78 \<and> b \<noteq> 0x58" by auto
    with s Cons show ?thesis by simp
  qed
  have body: "takeWhile (\<lambda>c. is_hex_digit c \<or> c = 0x5F) s = s"
    using all by (simp add: takeWhile_eq_all_conv)
  have rest: "dropWhile (\<lambda>c. is_hex_digit c \<or> c = 0x5F) s = []"
    using all by simp
  have "hd s \<noteq> 0x5F" "last s \<noteq> 0x5F"
    using nu ne hd_in_set [OF ne] last_in_set [OF ne] by metis+
  then show ?thesis
    unfolding int_base16_ok_def Let_def s1 s2 s3 body rest
    using ne no_double_underscore_free [OF nu] by simp
qed

text \<open>
  Claim C1, as amended. A link is issued with \<open>used = False\<close> and an expiry of
  \<open>link_expiry_hours\<close> after the clock, and its token is the first 16 digits of a SHA-256
  digest. \<open>validate_token\<close> answers true for such a token on every call and with every
  generator: it is a check of the token's format (not empty, 16 characters, readable as
  a base-16 integer) that takes the token alone, so it reads neither the expiry nor the
  \<open>used\<close> flag and marks nothing.
\<close>

theorem issued_token_always_valid:
  assumes "is_hexdigest d"
  shows "\<exists>tok data. token (generate_contact_link self user post_id ctx d now1 now2) = Some tok
           \<and> link_ctx (generate_contact_link self user post_id ctx d now1 now2) = Some data
           \<and> used data = False
           \<and> expires_at data = now2 + hours (link_expiry_hours self)
           \<and> validate_token g tok"
proof -
  let ?tok = "take 16 d"
  from assms have len: "length ?tok = 16" and hex: "\<forall>c \<in> set ?tok. (0x30 \<le> c \<and> c \<le> 0x39) \<or> (0x61 \<le> c \<and> c \<le> 0x66)"
    by (auto simp: is_hexdigest_def dest: in_set_takeD)
  from len have ne: "?tok \<noteq> []" by auto
  have "validate_token g ?tok"
    using hex_string_parses [OF ne hex] len ne by (simp add: validate_token_def)
  then show ?thesis
    by (simp add: generate_contact_link_def generate_unique_token_def Let_def)
qed

theorem issued_token_always_valid_witness:
  "is_hexdigest example_digest
   \<and> (\<exists>tok data. token example_link = Some tok \<and> link_ctx example_link = Some data
         \<and> used data = False \<and> expires_at data = 0 + hours (link_expiry_hours example_generator)
         \<and> validate_token example_generator tok)"
proof -
  have h: "is_hexdigest example_digest"
    by code_simp
  from issued_token_always_valid [OF h] h show ?thesis
    unfolding example_link_def by blast
qed

text \<open>
  The claim as first stated, that the second validation of a token fails, does not hold:
  the token of the example link is valid twice in a row, and the link's \<open>used\<close> flag is
  still false.
\<close>

theorem example_link_valid_twice:
  "token example_link = Some (asc ''9f86d081884c7d65'')
   \<and> map (validate_token example_generator) [asc ''9f86d081884c7d65'', asc ''9f86d081884c7d65''] = [True, True]
   \<and> map_option used (link_ctx example_link) = Some False
   \<and> map_option expires_at (link_ctx example_link) = Some (hours 24)"
  by code_simp

section \<open>Properties of the automatic responder\<close>

lemma save_response_history_count:
  "response_count (save_response_history self post resp link data now) = response_count self"
  by (simp add: save_response_history_def Let_def)

lemma update_response_stats_count:
  "response_count (update_response_stats self now1 now2)
     = (if hour_of now1 \<noteq> hour_of now2 then 0 else response_count self + 1)"
  by (simp add: update_response_stats_def Let_def)

lemma process_post_rejects:
  "MAX_RESPONSES_PER_HOUR settings \<le> response_count self \<Longrightarrow>
   process_post settings self post env = (None, self)"
  by (simp add: process_post_def can_respond_def)

text \<open>The two ways a call of \<open>process_post\<close> ends: nothing sent, or a reply sent and counted.\<close>

lemma process_post_cases:
  "process_post settings self post env = (None, self)
   \<or> (can_respond settings self (now_check env)
       \<and> (\<exists>resp link data.
             snd (process_post settings self post env)
               = save_response_history
                   (update_response_stats self (now_update1 env) (now_update2 env))
                   post resp link data (now_history env)))"
proof (cases "can_respond settings self (now_check env)")
  case False
  then show ?thesis by (simp add: process_post_def)
next
  case can: True
  show ?thesis
  proof (cases "is_complaint (detect_complaint (p_content post))")
    case False
    then show ?thesis by (simp add: process_post_def Let_def)
  next
    case compl: True
    show ?thesis
    proof (cases "send_result env")
      case None
      with can compl show ?thesis
        by (simp add: process_post_def Let_def generate_contact_link_def)
    next
      case (Some resp)
      show ?thesis
      proof (cases "generate_unique_token (digest env) = []")
        case True
        with can compl Some show ?thesis
          by (simp add: process_post_def Let_def generate_contact_link_def)
      next
        case False
        with can compl Some show ?thesis
          by (auto simp: process_post_def Let_def generate_contact_link_def)
      qed
    qed
  qed
qed

lemma process_post_count:
  "response_count (snd (process_post settings self post env)) = response_count self
   \<or> response_count (snd (process_post settings self post env)) = 0
   \<or> (response_count self < MAX_RESPONSES_PER_HOUR settings
        \<and> response_count (snd (process_post settings self post env)) = response_count self + 1)"
proof -
  have "can_respond settings self (now_check env) \<Longrightarrow>
        response_count self < MAX_RESPONSES_PER_HOUR settings"
    by (auto simp: can_respond_def split: if_splits)
  with process_post_cases [of settings self post env] show ?thesis
    by (auto simp: save_response_history_count update_response_stats_count)
qed

lemma process_post_bounds:
  assumes "0 \<le> MAX_RESPONSES_PER_HOUR settings"
    and "0 \<le> response_count self \<and> response_count self \<le> MAX_RESPONSES_PER_HOUR settings"
  shows "0 \<le> response_count (snd (process_post settings self post env))
         \<and> response_count (snd (process_post settings self post env)) \<le> MAX_RESPONSES_PER_HOUR settings"
  using assms process_post_count [of settings self post env] by auto

lemma run_posts_bounds:
  assumes "0 \<le> MAX_RESPONSES_PER_HOUR settings"
  shows "0 \<le> response_count self \<and> response_count self \<le> MAX_RESPONSES_PER_HOUR settings \<Longrightarrow>
         0 \<le> response_count (run_posts settings self events)
         \<and> response_count (run_posts settings self events) \<le> MAX_RESPONSES_PER_HOUR settings"
proof (induction events arbitrary: self)
  case Nil
  then show ?case by simp
next
  case (Cons ev events)
  obtain post env where ev: "ev = (post, env)" by (cases ev)
  from process_post_bounds [OF assms Cons.prems, of post env]
  show ?case unfolding ev by (simp add: Cons.IH)
qed

text \<open>
  Claim C3. With a cap that is not negative, the count of responses never exceeds
  \<open>MAX_RESPONSES_PER_HOUR\<close>, whatever posts the responder is given and whatever the clock
  and the Mastodon client answer; and once the count has reached the cap, the next call
  of \<open>process_post\<close> sends nothing and leaves the responder as it is, for every post.
\<close>

theorem cap_never_exceeded:
  assumes "0 \<le> MAX_RESPONSES_PER_HOUR settings"
  shows "response_count (run_posts settings (new_responder settings) events)
           \<le> MAX_RESPONSES_PER_HOUR settings
         \<and> (MAX_RESPONSES_PER_HOUR settings \<le> response_count (run_posts settings (new_responder settings) events)
              \<longrightarrow> process_post settings (run_posts settings (new_responder settings) events) post env
                    = (None, run_posts settings (new_responder settings) events))"
proof -
  have "0 \<le> response_count (new_responder settings)
        \<and> response_count (new_responder settings) \<le> MAX_RESPONSES_PER_HOUR settings"
    using assms by (simp add: new_responder_def)
  from run_posts_bounds [OF assms this] process_post_rejects show ?thesis
    by blast
qed

lemma example_complaint_detected: "is_complaint (detect_complaint example_complaint)"
  by code_simp

lemma example_digest_not_empty: "example_digest \<noteq> []"
  by (simp add: example_digest_def asc_def)

lemma capped_responder_fields:
  "response_count capped_responder = 2 \<and> last_response_time capped_responder = Some (seconds 60)"
  unfolding capped_responder_def
  by (simp add: process_post_def can_respond_def Let_def example_complaint_detected
        example_digest_not_empty example_post_def example_env_def generate_contact_link_def
        generate_unique_token_def update_response_stats_def save_response_history_def
        new_responder_def capped_settings_def default_settings_def seconds_def)

theorem cap_never_exceeded_witness:
  "0 \<le> MAX_RESPONSES_PER_HOUR capped_settings
   \<and> response_count capped_responder = MAX_RESPONSES_PER_HOUR capped_settings
   \<and> process_post capped_settings capped_responder
        (example_post\<lparr> p_content := asc ''merci'' \<rparr>) (example_env (hours 2))
      = (None, capped_responder)"
proof -
  have h: "0 \<le> MAX_RESPONSES_PER_HOUR capped_settings"
    by (simp add: capped_settings_def)
  have c: "response_count capped_responder = MAX_RESPONSES_PER_HOUR capped_settings"
    by (simp add: capped_responder_fields capped_settings_def)
  note cap_never_exceeded [OF h, of "[(example_post, example_env 0), (example_post, example_env (seconds 60))]"
        "example_post\<lparr> p_content := asc ''merci'' \<rparr>" "example_env (hours 2)",
        folded capped_responder_def]
  with h c show ?thesis
    by simp
qed

lemma spaced_responder_fields:
  "response_count spaced_responder = 2 \<and> last_response_time spaced_responder = Some (hours 2)"
  unfolding spaced_responder_def
  by (simp add: process_post_def can_respond_def Let_def example_complaint_detected
        example_digest_not_empty example_post_def example_env_def generate_contact_link_def
        generate_unique_token_def update_response_stats_def save_response_history_def
        new_responder_def capped_settings_def default_settings_def seconds_def hours_def)

text \<open>
  Claim C2. After the cap is reached, a send attempt should be accepted again once the
  window has elapsed; the source says the same of its counter ("Reset du compteur
  toutes les heures", \<open>MAX_RESPONSES_PER_HOUR\<close>). The code does not do it. The reset
  compares the hour of the time it has just stored with the hour of the next clock
  reading, and it is reached only after a response has passed the rate check. With a cap
  of two, the responder that answered at 0 s and at 60 s rejects the attempt two hours
  later and stays as it is; and the responder that answered at 0 h and at 2 h has
  counted both responses, although they lie two hours apart, and rejects the attempt at
  4 h.
\<close>

theorem capped_responder_never_recovers:
  "MAX_RESPONSES_PER_HOUR capped_settings = 2
   \<and> response_count capped_responder = 2
   \<and> last_response_time capped_responder = Some (seconds 60)
   \<and> \<not> can_respond capped_settings capped_responder (hours 2)
   \<and> process_post capped_settings capped_responder example_post (example_env (hours 2))
       = (None, capped_responder)
   \<and> response_count spaced_responder = 2
   \<and> last_response_time spaced_responder = Some (hours 2)
   \<and> \<not> can_respond capped_settings spaced_responder (hours 4)
   \<and> process_post capped_settings spaced_responder example_post (example_env (hours 4))
       = (None, spaced_responder)"
proof -
  have cap: "MAX_RESPONSES_PER_HOUR capped_settings = 2"
    by (simp add: capped_settings_def)
  have c1: "MAX_RESPONSES_PER_HOUR capped_settings \<le> response_count capped_responder"
    by (simp add: capped_responder_fields cap)
  have c2: "MAX_RESPONSES_PER_HOUR capped_settings \<le> response_count spaced_responder"
    by (simp add: spaced_responder_fields cap)
  have "\<not> can_respond capped_settings capped_responder (hours 2)"
    using c1 by (simp add: can_respond_def)
  moreover have "\<not> can_respond capped_settings spaced_responder (hours 4)"
    using c2 by (simp add: can_respond_def)
  ultimately show ?thesis
    using cap capped_responder_fields spaced_responder_fields
      process_post_rejects [OF c1] process_post_rejects [OF c2]
    by simp
qed

section \<open>Properties of the collector\<close>

lemma process_single_post_processed:
  "processed_posts (process_single_post settings self post env) = processed_posts self"
  by (simp add: process_single_post_def Let_def split: prod.splits)

lemma process_one_skip:
  "p_id post \<in> processed_posts self \<Longrightarrow> process_one settings self post now env = self"
  by (simp add: process_one_def)

lemma process_one_processed:
  "processed_posts (process_one settings self post now env)
     = (if p_id post \<in> processed_posts self \<or> \<not> is_recent_post post now
           \<or> \<not> is_free_mobile_related settings post
        then processed_posts self else insert (p_id post) (processed_posts self))"
  by (simp add: process_one_def Let_def process_single_post_processed)

lemma process_one_mono:
  "processed_posts self \<subseteq> processed_posts (process_one settings self post now env)"
  by (auto simp: process_one_processed)

lemma process_posts_mono:
  "processed_posts self \<subseteq> processed_posts (process_posts settings self posts)"
proof (induction posts arbitrary: self)
  case Nil
  then show ?case by simp
next
  case (Cons item posts)
  obtain post now env where item: "item = (post, now, env)" by (cases item)
  from process_one_mono [of self settings post now env]
    Cons.IH [of "process_one settings self post now env"]
  show ?case unfolding item by auto
qed

lemma process_posts_filter:
  "S \<subseteq> processed_posts self \<Longrightarrow>
   process_posts settings self posts
     = process_posts settings self (filter (\<lambda>(post, now, env). p_id post \<notin> S) posts)"
proof (induction posts arbitrary: self)
  case Nil
  then show ?case by simp
next
  case (Cons item posts)
  obtain post now env where item: "item = (post, now, env)" by (cases item)
  have next_state: "S \<subseteq> processed_posts (process_one settings self post now env)"
    using Cons.prems process_one_mono by blast
  show ?case
  proof (cases "p_id post \<in> S")
    case True
    then have "process_one settings self post now env = self"
      using Cons.prems by (auto intro: process_one_skip)
    with True Cons.IH [OF Cons.prems] show ?thesis
      unfolding item by simp
  next
    case False
    with Cons.IH [OF next_state] show ?thesis
      unfolding item by simp
  qed
qed

text \<open>
  Claim C4. A post whose id is in \<open>processed_posts\<close> is skipped by the first test of the
  loop: the collector stays exactly as it is, whatever the post's content, the clock and
  the Mastodon client, so it is not triaged (no complaint is counted) and not answered
  (the responder is unchanged). A whole poll gives the same collector with or without
  such posts, and a poll never removes an id from \<open>processed_posts\<close>.
\<close>

theorem processed_posts_skipped:
  "(p_id post \<in> processed_posts self \<longrightarrow> process_one settings self post now env = self)
   \<and> process_posts settings self posts
       = process_posts settings self
           (filter (\<lambda>(post, now, env). p_id post \<notin> processed_posts self) posts)
   \<and> processed_posts self \<subseteq> processed_posts (process_posts settings self posts)"
  using process_one_skip process_posts_filter [of "processed_posts self" self settings posts]
    process_posts_mono
  by blast

lemma example_post_related: "is_free_mobile_related default_settings example_post"
  by code_simp

lemma example_post_recent: "is_recent_post example_post (seconds 10)"
  by (simp add: is_recent_post_def example_post_def seconds_def)

lemma example_post_processed: "p_id example_post \<in> processed_posts processed_collector"
  unfolding processed_collector_def
  by (simp add: process_one_processed example_post_related example_post_recent)

theorem processed_posts_skipped_witness:
  "p_id example_post \<in> processed_posts processed_collector
   \<and> process_one default_settings processed_collector
        (example_post\<lparr> p_content := asc ''Free Mobile en panne'' \<rparr>) (seconds 100) (example_env (seconds 100))
       = processed_collector
   \<and> process_posts default_settings processed_collector
        [(example_post, seconds 100, example_env (seconds 100))] = processed_collector"
proof -
  have h: "p_id (example_post\<lparr> p_content := asc ''Free Mobile en panne'' \<rparr>) \<in> processed_posts processed_collector"
    using example_post_processed by simp
  note skipped = processed_posts_skipped [of "example_post\<lparr> p_content := asc ''Free Mobile en panne'' \<rparr>"
        processed_collector default_settings "seconds 100" "example_env (seconds 100)"
        "[(example_post, seconds 100, example_env (seconds 100))]"]
  from skipped h example_post_processed show ?thesis
    by simp
qed

end
